theory Spec2Isabelle
  imports Main "HOL-Library.Sublist"
begin

section \<open>JavaScript strings and arrays\<close>

text \<open>
  A string is the list of the UTF-8 bytes of the source's (well-formed) string.
  \<^verbatim>\<open>String.prototype.trim\<close> removes the white space and the line terminators of
  ECMAScript from both ends: the characters U+0009 to U+000D, U+0020, U+00A0, U+1680,
  U+2000 to U+200A, U+2028, U+2029, U+202F, U+205F, U+3000 and U+FEFF, listed here by
  their bytes.
\<close>

definition white_space :: "string list" where
  "white_space =
     [[CHR 0x09], [CHR 0x0A], [CHR 0x0B], [CHR 0x0C], [CHR 0x0D], [CHR 0x20],
      [CHR 0xC2, CHR 0xA0],
      [CHR 0xE1, CHR 0x9A, CHR 0x80],
      [CHR 0xE2, CHR 0x80, CHR 0x80], [CHR 0xE2, CHR 0x80, CHR 0x81],
      [CHR 0xE2, CHR 0x80, CHR 0x82], [CHR 0xE2, CHR 0x80, CHR 0x83],
      [CHR 0xE2, CHR 0x80, CHR 0x84], [CHR 0xE2, CHR 0x80, CHR 0x85],
      [CHR 0xE2, CHR 0x80, CHR 0x86], [CHR 0xE2, CHR 0x80, CHR 0x87],
      [CHR 0xE2, CHR 0x80, CHR 0x88], [CHR 0xE2, CHR 0x80, CHR 0x89],
      [CHR 0xE2, CHR 0x80, CHR 0x8A],
      [CHR 0xE2, CHR 0x80, CHR 0xA8], [CHR 0xE2, CHR 0x80, CHR 0xA9],
      [CHR 0xE2, CHR 0x80, CHR 0xAF],
      [CHR 0xE2, CHR 0x81, CHR 0x9F],
      [CHR 0xE3, CHR 0x80, CHR 0x80],
      [CHR 0xEF, CHR 0xBB, CHR 0xBF]]"

text \<open>\<open>strip ws s\<close> removes from the start of \<open>s\<close> every leading occurrence of a text of \<open>ws\<close>.\<close>

function strip :: "string list \<Rightarrow> string \<Rightarrow> string" where
  "strip ws s =
     (case find (\<lambda>w. w \<noteq> [] \<and> prefix w s) ws of
        None \<Rightarrow> s
      | Some w \<Rightarrow> strip ws (drop (length w) s))"
  by pat_completeness auto
termination
proof (relation "measure (\<lambda>(ws, s). length s)")
  show "wf (measure (\<lambda>(ws, s). length s))" by simp
next
  fix ws :: "string list" and s w :: string
  assume "find (\<lambda>w. w \<noteq> [] \<and> prefix w s) ws = Some w"
  then have "w \<noteq> []" and "prefix w s"
    by (auto simp: find_Some_iff)
  then have "0 < length w" and "length w \<le> length s"
    by (auto simp: prefix_def)
  then have "length s - length w < length s" by arith
  then show "((ws, drop (length w) s), (ws, s)) \<in> measure (\<lambda>(ws, s). length s)"
    by simp
qed

declare strip.simps [simp del]

definition trimStart :: "string \<Rightarrow> string" where
  "trimStart s = strip white_space s"

definition trimEnd :: "string \<Rightarrow> string" where
  "trimEnd s = rev (strip (map rev white_space) (rev s))"

definition trim :: "string \<Rightarrow> string" where
  "trim s = trimEnd (trimStart s)"

text \<open>
  \<^verbatim>\<open>String.prototype.toLowerCase\<close> applies the case mapping of Unicode, a table of the
  platform that is no part of the repository: the functions that call it take it as
  their parameter \<open>toLowerCase\<close>, and what is proved of them holds for every case
  mapping. On ASCII text the mapping turns the letters A to Z into a to z and leaves every
  other character as it is; \<open>ascii_toLowerCase\<close> is this mapping, used for the samples,
  whose texts are ASCII.
\<close>

definition ascii_toLowerCase_char :: "char \<Rightarrow> char" where
  "ascii_toLowerCase_char c =
     (let n = (of_char c :: nat) in if 65 \<le> n \<and> n \<le> 90 then char_of (n + 32) else c)"

definition ascii_toLowerCase :: "string \<Rightarrow> string" where
  "ascii_toLowerCase s = map ascii_toLowerCase_char s"

text \<open>\<^verbatim>\<open>s.includes(t)\<close> and \<^verbatim>\<open>xs.join(sep)\<close>.\<close>

fun str_includes :: "string \<Rightarrow> string \<Rightarrow> bool" where
  "str_includes [] t = (t = [])"
| "str_includes (c # cs) t = (prefix t (c # cs) \<or> str_includes cs t)"

fun join :: "string \<Rightarrow> string list \<Rightarrow> string" where
  "join sep [] = []"
| "join sep [x] = x"
| "join sep (x # y # zs) = x @ sep @ join sep (y # zs)"

text \<open>\<^verbatim>\<open>findIndex\<close>: the first index whose element satisfies the test; \<open>None\<close> is -1.\<close>

fun findIndex :: "('a \<Rightarrow> bool) \<Rightarrow> 'a list \<Rightarrow> nat option" where
  "findIndex P [] = None"
| "findIndex P (x # xs) =
     (if P x then Some 0 else (case findIndex P xs of None \<Rightarrow> None | Some i \<Rightarrow> Some (Suc i)))"

text \<open>\<^verbatim>\<open>xs.splice(i, 1)\<close>: the array without its element at index \<open>i\<close>.\<close>

definition splice1 :: "nat \<Rightarrow> 'a list \<Rightarrow> 'a list" where
  "splice1 i xs = take i xs @ drop (Suc i) xs"

section \<open>The catalog, the grid and the selection (script.js)\<close>

text \<open>
  A product of \<^verbatim>\<open>products.json\<close>. Its id is a JSON number; a field that may be
  missing (\<^verbatim>\<open>undefined\<close>) is an option.
\<close>

record product =
  pid :: int
  name :: "string option"
  brand :: "string option"
  category :: "string option"
  description :: "string option"
  image_url :: "string option"

text \<open>
  What \<^verbatim>\<open>localStorage.getItem("selectedProductIds")\<close> holds: nothing, the empty
  string, a text that \<^verbatim>\<open>JSON.parse\<close> rejects, the text of a JSON value that is not an
  array, or the text of a JSON array of ids. The stored text is identified with the value
  it encodes.
\<close>

datatype stored = NoItem | EmptyText | Unparsable | NonArray | IdArray "int list"

text \<open>
  The module-level variables \<^verbatim>\<open>allProducts\<close>, \<^verbatim>\<open>productsById\<close>,
  \<^verbatim>\<open>selectedProducts\<close>, together with the parts of the page the functions read and
  write: the cards of \<^verbatim>\<open>#productsContainer\<close> (\<open>grid\<close>; empty when a placeholder is
  shown), the chips of \<^verbatim>\<open>#selectedProductsList\<close> (\<open>tray\<close>), whether that element
  exists, the storage entry, and whether \<^verbatim>\<open>localStorage.setItem\<close> succeeds.
\<close>

record catalog_state =
  allProducts :: "product list"
  productsById :: "int \<rightharpoonup> product"
  selectedProducts :: "product list"
  grid :: "product list"
  tray :: "product list"
  has_selected_list :: bool
  storage :: stored
  storage_writable :: bool

text \<open>\<^verbatim>\<open>saveSelectedToStorage\<close>: a failing \<^verbatim>\<open>setItem\<close> is caught and ignored.\<close>

definition saveSelectedToStorage :: "catalog_state \<Rightarrow> catalog_state" where
  "saveSelectedToStorage s =
     (if storage_writable s
      then s\<lparr>storage := IdArray (map pid (selectedProducts s))\<rparr>
      else s)"

text \<open>
  \<^verbatim>\<open>updateSelectedList\<close>: returns at once without the list element; with an empty
  selection it shows the placeholder and returns; otherwise it renders one chip per
  selected product and persists.
\<close>

definition updateSelectedList :: "catalog_state \<Rightarrow> catalog_state" where
  "updateSelectedList s =
     (if \<not> has_selected_list s then s
      else if selectedProducts s = [] then s\<lparr>tray := []\<rparr>
      else saveSelectedToStorage (s\<lparr>tray := selectedProducts s\<rparr>))"

text \<open>
  What a function that may throw leaves behind: it returns, or it throws (the promise of
  an asynchronous function is rejected), each with the state reached.
\<close>

datatype 'a outcome = Returned 'a | Thrown 'a

fun state_after :: "'a outcome \<Rightarrow> 'a" where
  "state_after (Returned s) = s"
| "state_after (Thrown s) = s"

definition has_name :: "product \<Rightarrow> bool" where
  "has_name p = (name p \<noteq> None)"

text \<open>
  \<^verbatim>\<open>displayProducts\<close>: rebuilds the id map, then builds one card per product and
  assigns the cards to the container. The card of a product calls
  \<^verbatim>\<open>escapeHtml(product.name)\<close>, which throws a TypeError for a product without a name:
  the assignment does not happen then, and the container keeps what it showed.
\<close>

definition displayProducts :: "product list \<Rightarrow> catalog_state \<Rightarrow> catalog_state outcome" where
  "displayProducts products s =
     (let s1 = s\<lparr>productsById := fold (\<lambda>p m. m(pid p \<mapsto> p)) products Map.empty\<rparr>
      in if list_all has_name products then Returned (s1\<lparr>grid := products\<rparr>) else Thrown s1)"

text \<open>
  \<^verbatim>\<open>toggleSelection(cardEl)\<close>, with \<open>cid\<close> the number read from the card's
  \<^verbatim>\<open>data-id\<close>.
\<close>

definition toggleSelection :: "int \<Rightarrow> catalog_state \<Rightarrow> catalog_state" where
  "toggleSelection cid s =
     (case productsById s cid of
        None \<Rightarrow> s
      | Some prd \<Rightarrow>
          (case findIndex (\<lambda>p. pid p = cid) (selectedProducts s) of
             None \<Rightarrow> updateSelectedList (s\<lparr>selectedProducts := selectedProducts s @ [prd]\<rparr>)
           | Some i \<Rightarrow>
               updateSelectedList (s\<lparr>selectedProducts := splice1 i (selectedProducts s)\<rparr>)))"

text \<open>The click handler of a chip's remove button, \<open>cid\<close> the chip's \<^verbatim>\<open>data-id\<close>.\<close>

definition removeChip :: "int \<Rightarrow> catalog_state \<Rightarrow> catalog_state" where
  "removeChip cid s =
     (let s1 = (case findIndex (\<lambda>p. pid p = cid) (selectedProducts s) of
                  None \<Rightarrow> s
                | Some i \<Rightarrow> s\<lparr>selectedProducts := splice1 i (selectedProducts s)\<rparr>)
      in saveSelectedToStorage (updateSelectedList s1))"

definition clearAllSelections :: "catalog_state \<Rightarrow> catalog_state" where
  "clearAllSelections s =
     updateSelectedList (saveSelectedToStorage (s\<lparr>selectedProducts := []\<rparr>))"

text \<open>The placeholder object \<^verbatim>\<open>{ id }\<close> of \<^verbatim>\<open>loadSelectedFromStorage\<close>.\<close>

definition placeholder :: "int \<Rightarrow> product" where
  "placeholder i =
     \<lparr>pid = i, name = None, brand = None, category = None, description = None,
      image_url = None\<rparr>"

definition loadSelectedFromStorage :: "catalog_state \<Rightarrow> catalog_state" where
  "loadSelectedFromStorage s =
     (case storage s of
        IdArray ids \<Rightarrow>
          (if allProducts s \<noteq> []
           then s\<lparr>selectedProducts := filter (\<lambda>p. pid p \<in> set ids) (allProducts s)\<rparr>
           else s\<lparr>selectedProducts := map placeholder ids\<rparr>)
      | _ \<Rightarrow> s)"

text \<open>
  \<^verbatim>\<open>updateProductGrid\<close>. \<open>toLowerCase\<close> is the case mapping of the platform;
  \<open>fetched\<close> is what \<^verbatim>\<open>loadProducts()\<close> gives when it is called (\<open>None\<close>: the fetch
  fails and the function throws); \<open>cat\<close> and \<open>search\<close> are the values of
  \<^verbatim>\<open>#categoryFilter\<close> and \<^verbatim>\<open>#productSearch\<close> (\<open>None\<close>: no such element). The
  markup of a card and the highlighting of the match are not modelled.
\<close>

definition searchTerm_of :: "(string \<Rightarrow> string) \<Rightarrow> string option \<Rightarrow> string" where
  "searchTerm_of toLowerCase search =
     (case search of
        None \<Rightarrow> []
      | Some v \<Rightarrow> if v = [] then [] else toLowerCase (trim v))"

definition selectedCategory_of :: "string option \<Rightarrow> string" where
  "selectedCategory_of cat = (case cat of None \<Rightarrow> [] | Some v \<Rightarrow> v)"

definition title_of :: "(string \<Rightarrow> string) \<Rightarrow> product \<Rightarrow> string" where
  "title_of toLowerCase p = toLowerCase (case name p of None \<Rightarrow> [] | Some n \<Rightarrow> n)"

definition filtered_products ::
  "(string \<Rightarrow> string) \<Rightarrow> product list \<Rightarrow> string option \<Rightarrow> string option \<Rightarrow> product list" where
  "filtered_products toLowerCase products cat search =
     (let selectedCategory = selectedCategory_of cat;
          searchTerm = searchTerm_of toLowerCase search;
          filtered = (if selectedCategory \<noteq> []
                      then filter (\<lambda>p. category p = Some selectedCategory) products
                      else products)
      in if searchTerm \<noteq> []
         then filter (\<lambda>p. str_includes (title_of toLowerCase p) searchTerm) filtered
         else filtered)"

definition updateProductGrid ::
  "(string \<Rightarrow> string) \<Rightarrow> product list option \<Rightarrow> string option \<Rightarrow> string option \<Rightarrow>
   catalog_state \<Rightarrow> catalog_state outcome" where
  "updateProductGrid toLowerCase fetched cat search s =
     (case (if allProducts s \<noteq> [] then Some (allProducts s) else fetched) of
        None \<Rightarrow> Thrown s
      | Some products \<Rightarrow>
          (let filtered = filtered_products toLowerCase products cat search
           in if filtered = [] then Returned (s\<lparr>grid := []\<rparr>) else displayProducts filtered s))"

text \<open>
  The start-up function \<^verbatim>\<open>init\<close>: loads the catalog, restores the selection from
  the stored ids, then refreshes the tray and the grid. A failing load or a stored text
  that does not parse throws into the enclosing \<^verbatim>\<open>catch\<close>, which ends the function.
  The call of \<^verbatim>\<open>updateProductGrid\<close> is not awaited: whether it returns or throws,
  \<^verbatim>\<open>init\<close> ends with the state it leaves.
\<close>

definition init ::
  "(string \<Rightarrow> string) \<Rightarrow> product list option \<Rightarrow> string option \<Rightarrow> string option \<Rightarrow>
   catalog_state \<Rightarrow> catalog_state" where
  "init toLowerCase fetched cat search s =
     (case fetched of
        None \<Rightarrow> s
      | Some ps \<Rightarrow>
          (let s1 = s\<lparr>allProducts := ps\<rparr> in
           case storage s1 of
             Unparsable \<Rightarrow> s1
           | IdArray ids \<Rightarrow>
               (let s2 = (if ids \<noteq> []
                          then s1\<lparr>selectedProducts := filter (\<lambda>p. pid p \<in> set ids) ps\<rparr>
                          else s1)
                in state_after (updateProductGrid toLowerCase fetched cat search (updateSelectedList s2)))
           | _ \<Rightarrow> state_after (updateProductGrid toLowerCase fetched cat search (updateSelectedList s1))))"

subsection \<open>The invariants of the selection, and a sample catalog\<close>

definition no_duplicate_ids :: "product list \<Rightarrow> bool" where
  "no_duplicate_ids sel = distinct (map pid sel)"

definition ids_in_catalog :: "product list \<Rightarrow> product list \<Rightarrow> bool" where
  "ids_in_catalog catalog sel = list_all (\<lambda>p. pid p \<in> set (map pid catalog)) sel"

text \<open>
  What \<open>displayProducts\<close> leaves in \<open>productsById\<close>: every entry is stored under
  its own id, and is a product of the catalog.
\<close>

definition keyed_by_id :: "(int \<rightharpoonup> product) \<Rightarrow> bool" where
  "keyed_by_id m = (\<forall>i p. m i = Some p \<longrightarrow> pid p = i)"

definition byId_ok :: "product list \<Rightarrow> (int \<rightharpoonup> product) \<Rightarrow> bool" where
  "byId_ok catalog m = (keyed_by_id m \<and> ran m \<subseteq> set catalog)"

definition stored_ids_distinct :: "stored \<Rightarrow> bool" where
  "stored_ids_distinct st = (case st of IdArray ids \<Rightarrow> distinct ids | _ \<Rightarrow> True)"


text \<open>The catalog of the specification's scenario, and the page as it is first loaded.\<close>

definition gel :: product where
  "gel = \<lparr>pid = 1, name = Some ''Gel'', brand = None, category = Some ''cleanser'',
          description = None, image_url = None\<rparr>"

definition cream :: product where
  "cream = \<lparr>pid = 2, name = Some ''Cream'', brand = None, category = Some ''moisturizer'',
            description = None, image_url = None\<rparr>"

definition start :: catalog_state where
  "start = \<lparr>allProducts = [], productsById = Map.empty, selectedProducts = [],
            grid = [], tray = [], has_selected_list = True, storage = NoItem,
            storage_writable = True\<rparr>"

text \<open>The page after start-up with the sample catalog and no filter element.\<close>

definition loaded :: catalog_state where
  "loaded = init ascii_toLowerCase (Some [gel, cream]) None None start"

text \<open>Both sample products selected, the gel first.\<close>

definition both_selected :: catalog_state where
  "both_selected = toggleSelection 2 (toggleSelection 1 loaded)"


definition contains_ignoring_case :: "(string \<Rightarrow> string) \<Rightarrow> string \<Rightarrow> string \<Rightarrow> bool" where
  "contains_ignoring_case toLowerCase text term =
     str_includes (toLowerCase text) (toLowerCase term)"


text \<open>The two invariants of the selection, relative to a catalog.\<close>

definition selection_ok :: "product list \<Rightarrow> product list \<Rightarrow> bool" where
  "selection_ok catalog sel = (no_duplicate_ids sel \<and> ids_in_catalog catalog sel)"

text \<open>A page opened with the ids 1 and 2 in the storage, before the catalog has loaded.\<close>

definition stored_12 :: catalog_state where
  "stored_12 = start\<lparr>storage := IdArray [1, 2]\<rparr>"

section \<open>The conversation (script.js)\<close>

subsection \<open>Values and text\<close>

text \<open>
  A possibly missing string is an option. \<open>js_or\<close> is \<^verbatim>\<open>a || b\<close> on such values
  (a missing or empty string is falsy); \<open>tmpl\<close> is the text a template literal
  inserts for one.
\<close>

definition truthy :: "string option \<Rightarrow> bool" where
  "truthy a = (case a of None \<Rightarrow> False | Some x \<Rightarrow> x \<noteq> [])"

definition js_or :: "string option \<Rightarrow> string option \<Rightarrow> string option" where
  "js_or a b = (if truthy a then a else b)"

definition tmpl :: "string option \<Rightarrow> string" where
  "tmpl a = (case a of None \<Rightarrow> ''undefined'' | Some x \<Rightarrow> x)"

definition digit :: "nat \<Rightarrow> char" where
  "digit n = char_of (48 + n)"

fun show_nat :: "nat \<Rightarrow> string" where
  "show_nat n = (if n < 10 then [digit n] else show_nat (n div 10) @ [digit (n mod 10)])"

declare show_nat.simps [simp del]

definition nl :: string where
  "nl = [CHR 0x0A]"

text \<open>The UTF-8 bytes of the horizontal ellipsis and of \<^verbatim>\<open>L'Oreal\<close> with its accent.\<close>

definition ellipsis :: string where
  "ellipsis = [CHR 0xE2, CHR 0x80, CHR 0xA6]"

definition LOreal :: string where
  "LOreal = ''L'' @ [CHR 0x27] @ ''Or'' @ [CHR 0xC3, CHR 0xA9] @ ''al''"

record message =
  role :: string
  content :: string

record web_result =
  title :: "string option"
  snippet :: "string option"
  url :: "string option"

definition systemInstruction :: message where
  "systemInstruction =
     \<lparr>role = ''system'',
      content = ''You are a helpful skincare, haircare, makeup, and fragrance assistant. Only answer questions related to the provided routine or to topics like skincare, haircare, makeup, fragrance, and related product advice. Use up-to-date, real-world information when available and include links and short citations for any factual claims about current products, releases, or formulations. If the user asks about unrelated topics, politely decline and steer them back to the subject.''\<rparr>"

subsection \<open>\<^verbatim>\<open>JSON.stringify(productsPayload, null, 2)\<close>\<close>

text \<open>
  The payload of a product: its name, brand, category and description. The text is the
  one \<^verbatim>\<open>JSON.stringify\<close> produces with an indentation of two blanks: a missing
  property is left out, and a string is quoted with the escapes of the standard.
\<close>

record payload_item =
  item_name :: "string option"
  item_brand :: "string option"
  item_category :: "string option"
  item_description :: "string option"

definition payload_of :: "product \<Rightarrow> payload_item" where
  "payload_of p =
     \<lparr>item_name = name p, item_brand = brand p, item_category = category p,
      item_description = description p\<rparr>"

definition hex_digit :: "nat \<Rightarrow> char" where
  "hex_digit n = (if n < 10 then char_of (48 + n) else char_of (87 + n))"

definition json_escape :: "char \<Rightarrow> string" where
  "json_escape c =
     (let n = (of_char c :: nat) in
      if n = 0x22 then [CHR 0x5C, CHR 0x22]
      else if n = 0x5C then [CHR 0x5C, CHR 0x5C]
      else if n = 0x08 then [CHR 0x5C, CHR ''b'']
      else if n = 0x0C then [CHR 0x5C, CHR ''f'']
      else if n = 0x0A then [CHR 0x5C, CHR ''n'']
      else if n = 0x0D then [CHR 0x5C, CHR ''r'']
      else if n = 0x09 then [CHR 0x5C, CHR ''t'']
      else if n < 0x20 then [CHR 0x5C, CHR ''u'', CHR ''0'', CHR ''0'', hex_digit (n div 16), hex_digit (n mod 16)]
      else [c])"

definition json_quote :: "string \<Rightarrow> string" where
  "json_quote s = [CHR 0x22] @ concat (map json_escape s) @ [CHR 0x22]"

definition item_members :: "payload_item \<Rightarrow> (string \<times> string) list" where
  "item_members i =
     (case item_name i of None \<Rightarrow> [] | Some v \<Rightarrow> [(''name'', v)]) @
     (case item_brand i of None \<Rightarrow> [] | Some v \<Rightarrow> [(''brand'', v)]) @
     (case item_category i of None \<Rightarrow> [] | Some v \<Rightarrow> [(''category'', v)]) @
     (case item_description i of None \<Rightarrow> [] | Some v \<Rightarrow> [(''description'', v)])"

definition stringify_item :: "payload_item \<Rightarrow> string" where
  "stringify_item i =
     (if item_members i = [] then ''{}''
      else ''{'' @ nl @
           join ('','' @ nl)
             (map (\<lambda>(k, v). ''    '' @ json_quote k @ '': '' @ json_quote v) (item_members i)) @
           nl @ ''  }'')"

definition stringify_payload :: "payload_item list \<Rightarrow> string" where
  "stringify_payload items =
     (if items = [] then ''[]''
      else ''['' @ nl @ join ('','' @ nl) (map (\<lambda>i. ''  '' @ stringify_item i) items) @ nl @ '']'')"

subsection \<open>The page and the network\<close>

text \<open>
  The configuration read from \<^verbatim>\<open>window\<close>, and the behaviour of the two services.
  A search answer is a rejected fetch, or a response with its \<^verbatim>\<open>ok\<close> flag and
  what \<^verbatim>\<open>r.json()\<close> gives: a rejection, or a JSON value: an array, an object (with
  its \<^verbatim>\<open>results\<close> property when that is an array), \<^verbatim>\<open>null\<close>, or a number,
  string or boolean. The elements of an array are taken as result objects. A chat answer
  is a rejection (of the fetch or of reading the body), a response that is not ok with
  its status and text, or the content the function extracts from an ok response
  (\<^verbatim>\<open>choices[0].message.content\<close>, else the body pretty-printed), taken as a string.
  An exception is represented by its message.
\<close>

datatype js_error = Error string

fun message_of :: "js_error \<Rightarrow> string" where
  "message_of (Error m) = m"

datatype json_body = JArray "web_result list" | JObject "web_result list option" | JNull | JOther

datatype search_response = SearchRejected string | SearchResponse bool "string + json_body"

datatype chat_response = ChatRejected string | ChatNotOk nat string | ChatContent string

record window =
  SEARCH_PROXY_URL :: "string option"
  SEARCH_WORKER_URL :: "string option"
  CF_WORKER_URL :: "string option"
  CLOUDFLARE_WORKER_URL :: "string option"
  window_OPENAI_API_KEY :: "string option"
  window_OPENAIKEY :: "string option"

record network =
  search_net :: "string \<Rightarrow> string \<Rightarrow> search_response"
  chat_net :: "string \<Rightarrow> message list \<Rightarrow> chat_response"

text \<open>
  A network call as the page issues it: the address, the body, and the state of the two
  buttons at that moment (the send button may be missing from the page).
\<close>

datatype payload = SearchQuery string | ChatMessages "message list"

record net_call =
  call_url :: string
  call_body :: payload
  generateBtn_was_disabled :: bool
  sendBtn_was_disabled :: "bool option"

datatype chat_entry = ChatMsg string string | Citations "web_result list"

text \<open>
  The module-level variables \<^verbatim>\<open>conversationMessages\<close> and \<^verbatim>\<open>routineGenerated\<close>,
  the entries of \<^verbatim>\<open>#chatWindow\<close> (\<open>None\<close>: no such element), the two buttons, the
  value of \<^verbatim>\<open>#userInput\<close>, and the network calls issued so far.
\<close>

record chat_state =
  conversationMessages :: "message list"
  routineGenerated :: bool
  chatWindow :: "chat_entry list option"
  generateBtn_disabled :: bool
  generateBtn_innerHTML :: string
  sendBtn_disabled :: "bool option"
  userInput :: "string option"
  calls :: "net_call list"

definition issue :: "string \<Rightarrow> payload \<Rightarrow> chat_state \<Rightarrow> chat_state" where
  "issue u b s =
     s\<lparr>calls := calls s @
          [\<lparr>call_url = u, call_body = b, generateBtn_was_disabled = generateBtn_disabled s,
            sendBtn_was_disabled = sendBtn_disabled s\<rparr>]\<rparr>"

definition appendMessageToChat :: "string \<Rightarrow> string \<Rightarrow> chat_state \<Rightarrow> chat_state" where
  "appendMessageToChat r c s =
     (case chatWindow s of
        None \<Rightarrow> s
      | Some w \<Rightarrow> s\<lparr>chatWindow := Some (w @ [ChatMsg r c])\<rparr>)"

definition appendCitationsToChat :: "web_result list \<Rightarrow> chat_state \<Rightarrow> chat_state" where
  "appendCitationsToChat results s =
     (case chatWindow s of
        None \<Rightarrow> s
      | Some w \<Rightarrow> if results = [] then s else s\<lparr>chatWindow := Some (w @ [Citations (take 5 results)])\<rparr>)"

definition push_message :: "message \<Rightarrow> chat_state \<Rightarrow> chat_state" where
  "push_message m s = s\<lparr>conversationMessages := conversationMessages s @ [m]\<rparr>"

subsection \<open>\<^verbatim>\<open>performWebSearch\<close> and \<^verbatim>\<open>callOpenAIWithMessages\<close>\<close>

text \<open>
  The body of the \<^verbatim>\<open>try\<close> block after the fetch: \<^verbatim>\<open>j.results\<close> on \<^verbatim>\<open>null\<close>
  throws a TypeError (represented with the message of V8).
\<close>

definition read_search_response :: "search_response \<Rightarrow> js_error + web_result list" where
  "read_search_response r =
     (case r of
        SearchRejected m \<Rightarrow> Inl (Error m)
      | SearchResponse ok body \<Rightarrow>
          if \<not> ok then Inr []
          else (case body of
                  Inl m \<Rightarrow> Inl (Error m)
                | Inr (JArray rs) \<Rightarrow> Inr rs
                | Inr (JObject (Some rs)) \<Rightarrow> Inr rs
                | Inr (JObject None) \<Rightarrow> Inr []
                | Inr JOther \<Rightarrow> Inr []
                | Inr JNull \<Rightarrow>
                    Inl (Error ''Cannot read properties of null (reading results)'')))"

definition performWebSearch ::
  "window \<Rightarrow> network \<Rightarrow> string \<Rightarrow> chat_state \<Rightarrow> (js_error + web_result list) \<times> chat_state" where
  "performWebSearch w net query s =
     (case js_or (SEARCH_PROXY_URL w) (SEARCH_WORKER_URL w) of
        None \<Rightarrow> (Inr [], s)
      | Some proxy \<Rightarrow>
          if proxy = [] then (Inr [], s)
          else (case read_search_response (search_net net proxy query) of
                  Inl err \<Rightarrow> (Inr [], issue proxy (SearchQuery query) s)
                | Inr rs \<Rightarrow> (Inr rs, issue proxy (SearchQuery query) s)))"

definition default_proxyUrl :: string where
  "default_proxyUrl = ''https://lorealroutinebuilder.sherreo99.workers.dev''"

definition openai_url :: string where
  "openai_url = ''https://api.openai.com/v1/chat/completions''"

definition read_chat_response :: "chat_response \<Rightarrow> js_error + string" where
  "read_chat_response r =
     (case r of
        ChatRejected m \<Rightarrow> Inl (Error m)
      | ChatNotOk status txt \<Rightarrow>
          Inl (Error (''OpenAI API error: '' @ show_nat status @ '' - '' @ txt))
      | ChatContent c \<Rightarrow> Inr c)"

definition callOpenAIWithMessages ::
  "window \<Rightarrow> network \<Rightarrow> message list \<Rightarrow> chat_state \<Rightarrow> (js_error + string) \<times> chat_state" where
  "callOpenAIWithMessages w net messages s =
     (let proxyUrl = js_or (CF_WORKER_URL w) (js_or (CLOUDFLARE_WORKER_URL w) (Some default_proxyUrl))
      in if truthy proxyUrl
         then (read_chat_response (chat_net net (tmpl proxyUrl) messages),
               issue (tmpl proxyUrl) (ChatMessages messages) s)
         else (let apiKey = js_or (window_OPENAI_API_KEY w) (window_OPENAIKEY w)
               in if \<not> truthy apiKey
                  then (Inl (Error ''No OpenAI API key found. Provide a worker URL or window.OPENAI_API_KEY.''), s)
                  else (read_chat_response (chat_net net openai_url messages),
                        issue openai_url (ChatMessages messages) s)))"

subsection \<open>The two handlers\<close>

text \<open>
  A handler is modelled from the event to its end, each \<^verbatim>\<open>await\<close> answered by the
  network; what another handler does in between is not modelled. A call records the state
  of the buttons when it is issued, which is their state until the handler goes on.
\<close>

text \<open>The text of the system message that carries the search results.\<close>

definition format_result :: "nat \<times> web_result \<Rightarrow> string" where
  "format_result ir =
     show_nat (fst ir + 1) @ ''. '' @ tmpl (js_or (title (snd ir)) (url (snd ir))) @ nl @
     tmpl (js_or (snippet (snd ir)) (Some [])) @ nl @ tmpl (url (snd ir))"

definition results_message :: "web_result list \<Rightarrow> message" where
  "results_message webResults =
     \<lparr>role = ''system'',
      content = ''Web search results (top):'' @ nl @ nl @
                join (nl @ nl) (map format_result (enumerate 0 (take 6 webResults)))\<rparr>"

definition user_prompt :: string where
  "user_prompt = ''Here are the selected products in JSON. Use these only and create a short routine (steps, timing, and brief why) formatted as plain text.'' @ nl @ nl"

definition generate_query :: "payload_item list \<Rightarrow> string" where
  "generate_query productsPayload =
     LOreal @ '' '' @ join '', '' (map (\<lambda>p. tmpl (js_or (item_name p) (Some []))) productsPayload) @
     '' routine, product information, releases, or reviews''"

text \<open>The \<^verbatim>\<open>try\<close> block of the generate handler, with its \<^verbatim>\<open>catch\<close>.\<close>

definition generate_try :: "window \<Rightarrow> network \<Rightarrow> payload_item list \<Rightarrow> chat_state \<Rightarrow> chat_state" where
  "generate_try w net productsPayload s =
     (case performWebSearch w net (generate_query productsPayload) s of
        (Inl err, s1) \<Rightarrow>
          appendMessageToChat ''assistant'' (''Error generating routine: '' @ message_of err) s1
      | (Inr webResults, s1) \<Rightarrow>
          (let s2 = (if webResults \<noteq> [] then push_message (results_message webResults) s1 else s1)
           in case callOpenAIWithMessages w net (conversationMessages s2) s2 of
                (Inl err, s3) \<Rightarrow>
                  appendMessageToChat ''assistant'' (''Error generating routine: '' @ message_of err) s3
              | (Inr c, s3) \<Rightarrow>
                  (let s4 = (push_message \<lparr>role = ''assistant'', content = c\<rparr> s3)
                              \<lparr>routineGenerated := True\<rparr>;
                       s5 = appendMessageToChat ''assistant'' c s4
                   in if webResults \<noteq> [] then appendCitationsToChat webResults s5 else s5)))"

text \<open>
  The click handler of \<^verbatim>\<open>#generateRoutine\<close>; \<open>selected\<close> is \<^verbatim>\<open>selectedProducts\<close>
  at the click.
\<close>

definition generate_click :: "window \<Rightarrow> network \<Rightarrow> product list \<Rightarrow> chat_state \<Rightarrow> chat_state" where
  "generate_click w net selected s =
     (if selected = []
      then appendMessageToChat ''assistant'' ''Please select one or more products first.'' s
      else
        (let productsPayload = map payload_of selected;
             userMsg = \<lparr>role = ''user'', content = user_prompt @ stringify_payload productsPayload\<rparr>;
             s1 = s\<lparr>conversationMessages := [systemInstruction, userMsg]\<rparr>;
             prevHtml = generateBtn_innerHTML s1;
             s2 = s1\<lparr>generateBtn_disabled := True,
                     generateBtn_innerHTML := ''Generating'' @ ellipsis\<rparr>;
             s3 = appendMessageToChat ''assistant''
                    (''Generating routine'' @ ellipsis @ '' Please wait.'') s2;
             s4 = generate_try w net productsPayload s3
         in s4\<lparr>generateBtn_disabled := False, generateBtn_innerHTML := prevHtml\<rparr>))"

text \<open>
  The submit handler of \<^verbatim>\<open>#chatForm\<close>. The search is awaited first; the send button
  is disabled after it, for the call of the chat service.
\<close>

definition chatForm_reply :: "window \<Rightarrow> network \<Rightarrow> web_result list \<Rightarrow> chat_state \<Rightarrow> chat_state" where
  "chatForm_reply w net webResults s =
     (case callOpenAIWithMessages w net (conversationMessages s) s of
        (Inr reply, s1) \<Rightarrow>
          (let s2 = push_message \<lparr>role = ''assistant'', content = reply\<rparr> s1;
               s3 = appendMessageToChat ''assistant'' reply s2
           in if webResults \<noteq> [] then appendCitationsToChat webResults s3 else s3)
      | (Inl err, s1) \<Rightarrow> appendMessageToChat ''assistant'' (''Error: '' @ message_of err) s1)"

definition chatForm_submit :: "window \<Rightarrow> network \<Rightarrow> chat_state \<Rightarrow> chat_state" where
  "chatForm_submit w net s =
     (case userInput s of
        None \<Rightarrow> s
      | Some v \<Rightarrow>
          (let txt = (if v = [] then [] else trim v) in
           if txt = [] then s
           else if \<not> routineGenerated s
           then appendMessageToChat ''assistant''
                  ''Please generate a routine first, then ask follow-up questions about it.'' s
           else
             (let s1 = appendMessageToChat ''user'' txt s;
                  s2 = push_message \<lparr>role = ''user'', content = txt\<rparr> s1
              in case performWebSearch w net (txt @ '' '' @ LOreal) s2 of
                   (Inl err, s3) \<Rightarrow> s3
                 | (Inr webResults, s3) \<Rightarrow>
                     (let s4 = (if webResults \<noteq> []
                                then push_message (results_message webResults) s3 else s3);
                          s5 = s4\<lparr>sendBtn_disabled := map_option (\<lambda>_. True) (sendBtn_disabled s4)\<rparr>;
                          s6 = chatForm_reply w net webResults s5
                      in s6\<lparr>sendBtn_disabled := map_option (\<lambda>_. False) (sendBtn_disabled s6),
                            userInput := Some []\<rparr>))))"

section \<open>The proxy workers (search-proxy-worker.js)\<close>

text \<open>
  The file holds two modules: the combined chat and search worker (lines 1 to 290) and the
  minimal search worker (from line 291). The default export of each is a handler
  \<^verbatim>\<open>fetch\<close>, a function of the request and the environment; what a handler fetches
  from a provider is recorded as a list of calls, and what a provider answers is a
  parameter. The functions of a module are embedded as they are written; whether they are
  ever evaluated is decided when the module is loaded.
\<close>

record env =
  OPENAI_API_KEY :: "string option"
  SERPAPI_KEY :: "string option"
  GOOGLE_API_KEY :: "string option"
  GOOGLE_CX :: "string option"

text \<open>
  The JSON body of a request, read at the properties the workers use: \<open>body_message\<close>
  is \<^verbatim>\<open>body.message\<close> when it is a string, \<open>body_messages\<close> is \<^verbatim>\<open>body.messages\<close>
  when it is an array (of messages with a role and a content).
\<close>

record req_body =
  body_message :: "string option"
  body_messages :: "message list option"
  body_q :: "string option"
  body_query :: "string option"

text \<open>
  A request: \<open>json\<close> is what \<^verbatim>\<open>request.json()\<close> gives (a rejection with its message,
  or the body), \<open>form_q\<close> what \<^verbatim>\<open>request.formData()\<close> followed by \<^verbatim>\<open>get("q")\<close> gives,
  \<open>url_q\<close> the query parameter \<^verbatim>\<open>q\<close> of the address.
\<close>

record request =
  http_method :: string
  pathname :: string
  content_type :: "string option"
  json :: "string + req_body"
  form_q :: "string + string option"
  url_q :: "string option"

datatype response_body =
  NoBody
| ErrorBody string
| ResultsBody "web_result list"
| ChatBody string "web_result list" string

record response =
  status :: nat
  headers :: "(string \<times> string) list"
  body :: response_body

text \<open>
  A call to a provider: a POST to the Responses API of the language model with its key
  and input, or a GET to a search provider with its arguments.
\<close>

datatype provider_call =
  PostResponses string string
| SerpApiGet string string
| GoogleGet string string string

text \<open>
  What the providers answer. For the search through the language model: \<open>SearchFailed\<close>
  when the fetch rejects, the response is not ok or reading it throws (with the message of
  the exception), else the array \<^verbatim>\<open>results\<close> that \<^verbatim>\<open>doOpenAISearch\<close> has built from
  the answer before its last line. For the reply: a failure, or the raw answer and the
  assistant text extracted from it. For a search provider: a failure, a response that is
  not ok, or the items of the answer.
\<close>

datatype search_outcome = SearchFailed string | SearchParsed "web_result list"

datatype reply_outcome = ReplyFailed string | Reply string string

record raw_item =
  i_title :: "string option"
  i_snippet :: "string option"
  i_description :: "string option"
  i_link :: "string option"
  i_url :: "string option"
  i_source :: "string option"
  i_formattedUrl :: "string option"

datatype get_outcome = GetFailed string | GetNotOk | GetItems "raw_item list"

record provider =
  openai_search :: "string \<Rightarrow> search_outcome"
  openai_reply :: "string \<Rightarrow> reply_outcome"
  serp_get :: "string \<Rightarrow> get_outcome"
  google_get :: "string \<Rightarrow> get_outcome"

definition CORS_HEADERS :: "(string \<times> string) list" where
  "CORS_HEADERS =
     [(''Access-Control-Allow-Origin'', ''*''),
      (''Access-Control-Allow-Methods'', ''GET,POST,OPTIONS''),
      (''Access-Control-Allow-Headers'', ''Content-Type, Authorization'')]"

definition CORS_HEADERS_minimal :: "(string \<times> string) list" where
  "CORS_HEADERS_minimal =
     [(''Access-Control-Allow-Origin'', ''*''),
      (''Access-Control-Allow-Methods'', ''GET,POST,OPTIONS''),
      (''Access-Control-Allow-Headers'', ''Content-Type'')]"

definition json_headers :: "(string \<times> string) list \<Rightarrow> (string \<times> string) list" where
  "json_headers cors = cors @ [(''Content-Type'', ''application/json'')]"

text \<open>\<^verbatim>\<open>err.message || String(err)\<close> for an exception with the given message.\<close>

definition error_text :: "js_error \<Rightarrow> string" where
  "error_text e = (if message_of e = [] then ''Error'' else message_of e)"

subsection \<open>Loading a module\<close>

text \<open>
  A module is parsed as a whole before any of it is evaluated, and a regular expression
  literal is checked when it is parsed: a character class with a range whose first
  character is greater than its last is a syntax error. The module is rejected then: none
  of its functions is evaluated, it exports no handler, and no request is answered. Of a
  literal only its character classes matter for this; a member of a class is a single
  character, a class escape such as \<^verbatim>\<open>\w\<close>, or a range \<^verbatim>\<open>a-b\<close>.
\<close>

datatype class_member = Class_char char | Class_escape char | Class_range char char

fun range_in_order :: "class_member \<Rightarrow> bool" where
  "range_in_order (Class_range lo hi) = ((of_char lo :: nat) \<le> of_char hi)"
| "range_in_order (Class_char c) = True"
| "range_in_order (Class_escape c) = True"

datatype 'h module = Failed_to_load | Exports 'h

definition load_module :: "class_member list list \<Rightarrow> 'h \<Rightarrow> 'h module" where
  "load_module classes handler =
     (if list_all (list_all range_in_order) classes then Exports handler else Failed_to_load)"

text \<open>
  What a worker answers to a request: \<open>None\<close> when its module exports no handler, else
  what the handler returns.
\<close>

definition respond :: "('p \<Rightarrow> 'e \<Rightarrow> 'r \<Rightarrow> 'a) module \<Rightarrow> 'p \<Rightarrow> 'e \<Rightarrow> 'r \<Rightarrow> 'a option" where
  "respond m prov e r = (case m of Failed_to_load \<Rightarrow> None | Exports handler \<Rightarrow> Some (handler prov e r))"

text \<open>
  The character classes of the literals of the combined worker: \<^verbatim>\<open>[\s\S]\<close> in line 97
  and \<^verbatim>\<open>[\w./?&=%-#]\<close> in line 108, whose last three characters are a range from
  \<^verbatim>\<open>%\<close> to \<^verbatim>\<open>#\<close>. The literals of lines 104 and 185 have no class, and the minimal
  worker has no literal.
\<close>

definition combined_worker_classes :: "class_member list list" where
  "combined_worker_classes =
     [[Class_escape (CHR ''s''), Class_escape (CHR ''S'')],
      [Class_escape (CHR ''w''), Class_char (CHR ''.''), Class_char (CHR ''/''),
       Class_char (CHR ''?''), Class_char (CHR ''&''), Class_char (CHR ''=''),
       Class_range (CHR ''%'') (CHR ''#'')]]"

definition minimal_worker_classes :: "class_member list list" where
  "minimal_worker_classes = []"

subsection \<open>\<^verbatim>\<open>doOpenAISearch\<close> and \<^verbatim>\<open>callOpenAIResponses\<close>\<close>

text \<open>
  \<^verbatim>\<open>doOpenAISearch\<close> as it is written. The provider's \<open>openai_search\<close> stands for
  lines 49 to 115: the fetch, the extraction of the text of the answer, and the array
  \<^verbatim>\<open>results\<close> parsed from it, its elements objects. The fallback of that parsing (lines
  102 to 114) reads an address from each line with the literal of line 108, the second
  class of \<open>combined_worker_classes\<close>: the model gives that fallback no result of its
  own, because the literal does not parse and the function is therefore never evaluated.
  This and the following definitions, up to \<open>fetch_combined\<close>, are the text of the combined
  module; what the worker does with a request is \<open>combined_worker\<close>.
\<close>

definition search_prompt :: "string \<Rightarrow> nat \<Rightarrow> string" where
  "search_prompt q max_results =
     ''Perform a live web search for the query below and return up to '' @ show_nat max_results @
     '' results as a JSON array of objects with keys: title, snippet, url.'' @ nl @ nl @
     ''Query: '' @ q"

definition doOpenAISearch ::
  "provider \<Rightarrow> string \<Rightarrow> env \<Rightarrow> nat \<Rightarrow> (js_error + web_result list) \<times> provider_call list" where
  "doOpenAISearch prov q e max_results =
     (if \<not> truthy (OPENAI_API_KEY e)
      then (Inl (Error ''Missing OPENAI_API_KEY in worker environment''), [])
      else
        (let prompt = search_prompt q max_results in
         (case openai_search prov prompt of
            SearchFailed m \<Rightarrow> Inl (Error m)
          | SearchParsed results \<Rightarrow> Inr (take max_results results),
          [PostResponses (tmpl (OPENAI_API_KEY e)) prompt])))"

definition input_part :: "message \<Rightarrow> string list" where
  "input_part m =
     (if role m = ''system'' then [''SYSTEM: '' @ content m]
      else if role m = ''user'' then [''USER: '' @ content m]
      else if role m = ''assistant'' then [''ASSISTANT: '' @ content m]
      else [])"

definition responses_input :: "message list \<Rightarrow> string" where
  "responses_input messages = join (nl @ nl) (concat (map input_part messages))"

definition callOpenAIResponses ::
  "provider \<Rightarrow> message list \<Rightarrow> env \<Rightarrow> (js_error + string \<times> string) \<times> provider_call list" where
  "callOpenAIResponses prov messages e =
     (if \<not> truthy (OPENAI_API_KEY e)
      then (Inl (Error ''Missing OPENAI_API_KEY in worker environment''), [])
      else
        (let input = responses_input messages in
         (case openai_reply prov input of
            ReplyFailed m \<Rightarrow> Inl (Error m)
          | Reply raw txt \<Rightarrow> Inr (raw, txt),
          [PostResponses (tmpl (OPENAI_API_KEY e)) input])))"

subsection \<open>The handler of the combined worker\<close>

definition strip_slash :: "string \<Rightarrow> string" where
  "strip_slash p = (if p \<noteq> [] \<and> last p = CHR ''/'' then butlast p else p)"

definition expected_json :: response where
  "expected_json =
     \<lparr>status = 400, headers = CORS_HEADERS, body = ErrorBody ''Expected application/json''\<rparr>"

definition server_error :: "js_error \<Rightarrow> response" where
  "server_error err = \<lparr>status = 500, headers = CORS_HEADERS, body = ErrorBody (error_text err)\<rparr>"

text \<open>The search query of a chat request: the message, else the last user turn.\<close>

definition messageString_of :: "req_body \<Rightarrow> string" where
  "messageString_of b =
     (if truthy (body_message b) then trim (tmpl (body_message b))
      else (case body_messages b of
              None \<Rightarrow> []
            | Some ms \<Rightarrow>
                if ms = [] then []
                else (case find (\<lambda>m. role m = ''user'') (rev ms) of
                        None \<Rightarrow> []
                      | Some lastUser \<Rightarrow> content lastUser)))"

definition worker_format_result :: "nat \<times> web_result \<Rightarrow> string" where
  "worker_format_result ir =
     show_nat (fst ir + 1) @ ''. '' @ tmpl (title (snd ir)) @ nl @ tmpl (snippet (snd ir)) @ nl @
     tmpl (url (snd ir))"

definition worker_formatted :: "web_result list \<Rightarrow> string" where
  "worker_formatted webResults = join (nl @ nl) (map worker_format_result (enumerate 0 webResults))"

text \<open>
  The search step of the chat branch: the results to return, the messages to forward and
  the calls made.
\<close>

definition chat_search ::
  "provider \<Rightarrow> env \<Rightarrow> string \<Rightarrow> message list \<Rightarrow>
   web_result list \<times> message list \<times> provider_call list" where
  "chat_search prov e messageString messages =
     (if messageString = [] then ([], messages, [])
      else (case doOpenAISearch prov messageString e 6 of
              (Inr webResults, cs) \<Rightarrow>
                (webResults,
                 if worker_formatted webResults \<noteq> []
                 then \<lparr>role = ''system'',
                       content = ''Web search results (top):'' @ nl @ nl @
                                 worker_formatted webResults\<rparr> # messages
                 else messages,
                 cs)
            | (Inl err, cs) \<Rightarrow>
                ([],
                 \<lparr>role = ''system'', content = ''Web search failed: '' @ message_of err\<rparr> # messages,
                 cs)))"

definition chat_branch :: "provider \<Rightarrow> env \<Rightarrow> request \<Rightarrow> response \<times> provider_call list" where
  "chat_branch prov e r =
     (if \<not> str_includes (tmpl (js_or (content_type r) (Some []))) ''application/json''
      then (expected_json, [])
      else (case json r of
              Inl m \<Rightarrow> (server_error (Error m), [])
            | Inr b \<Rightarrow>
                (let messages = (case body_messages b of None \<Rightarrow> [] | Some ms \<Rightarrow> ms) in
                 case chat_search prov e (messageString_of b) messages of
                   (webResults, forwarded, cs) \<Rightarrow>
                     (case callOpenAIResponses prov forwarded e of
                        (Inl err, cs') \<Rightarrow> (server_error err, cs @ cs')
                      | (Inr (raw, txt), cs') \<Rightarrow>
                          (\<lparr>status = 200, headers = json_headers CORS_HEADERS,
                            body = ChatBody txt webResults raw\<rparr>,
                           cs @ cs')))))"

definition search_branch :: "provider \<Rightarrow> env \<Rightarrow> request \<Rightarrow> response \<times> provider_call list" where
  "search_branch prov e r =
     (if \<not> str_includes (tmpl (js_or (content_type r) (Some []))) ''application/json''
      then (expected_json, [])
      else (case json r of
              Inl m \<Rightarrow> (server_error (Error m), [])
            | Inr b \<Rightarrow>
                (let q = trim (tmpl (js_or (body_q b) (js_or (body_query b) (Some [])))) in
                 if q = []
                 then (\<lparr>status = 200, headers = CORS_HEADERS, body = ResultsBody []\<rparr>, [])
                 else (case doOpenAISearch prov q e 8 of
                         (Inl err, cs) \<Rightarrow> (server_error err, cs)
                       | (Inr results, cs) \<Rightarrow>
                           (\<lparr>status = 200, headers = json_headers CORS_HEADERS,
                             body = ResultsBody results\<rparr>,
                            cs)))))"

definition fetch_combined :: "provider \<Rightarrow> env \<Rightarrow> request \<Rightarrow> response \<times> provider_call list" where
  "fetch_combined prov e r =
     (if http_method r = ''OPTIONS''
      then (\<lparr>status = 204, headers = CORS_HEADERS, body = NoBody\<rparr>, [])
      else if http_method r = ''POST'' \<and> suffix ''/chat'' (strip_slash (pathname r))
      then chat_branch prov e r
      else if http_method r = ''POST'' \<and> suffix ''/search'' (strip_slash (pathname r))
      then search_branch prov e r
      else (\<lparr>status = 404, headers = CORS_HEADERS, body = ErrorBody ''Not found''\<rparr>, []))"

text \<open>The combined worker: its module, loaded.\<close>

definition combined_worker ::
  "(provider \<Rightarrow> env \<Rightarrow> request \<Rightarrow> response \<times> provider_call list) module" where
  "combined_worker = load_module combined_worker_classes fetch_combined"

subsection \<open>The minimal search worker\<close>

definition serp_result :: "raw_item \<Rightarrow> web_result" where
  "serp_result i =
     \<lparr>title = js_or (i_title i) (Some []),
      snippet = js_or (i_snippet i) (js_or (i_description i) (Some [])),
      url = js_or (i_link i) (js_or (i_url i) (js_or (i_source i) (Some [])))\<rparr>"

definition google_result :: "raw_item \<Rightarrow> web_result" where
  "google_result i =
     \<lparr>title = js_or (i_title i) (Some []),
      snippet = js_or (i_snippet i) (js_or (i_snippet i) (Some [])),
      url = js_or (i_link i) (js_or (i_formattedUrl i) (Some []))\<rparr>"

definition minimal_error :: "js_error \<Rightarrow> response" where
  "minimal_error err =
     \<lparr>status = 500, headers = CORS_HEADERS_minimal, body = ErrorBody (error_text err)\<rparr>"

definition minimal_results :: "web_result list \<Rightarrow> response" where
  "minimal_results results =
     \<lparr>status = 200, headers = json_headers CORS_HEADERS_minimal, body = ResultsBody results\<rparr>"

text \<open>The query of a request to the minimal worker, before it is trimmed.\<close>

definition minimal_query :: "request \<Rightarrow> js_error + string option" where
  "minimal_query r =
     (if http_method r = ''POST''
      then (if str_includes (tmpl (js_or (content_type r) (Some []))) ''application/json''
            then (case json r of
                    Inl m \<Rightarrow> Inl (Error m)
                  | Inr b \<Rightarrow> Inr (js_or (body_q b) (js_or (body_query b) (Some []))))
            else (case form_q r of
                    Inl m \<Rightarrow> Inl (Error m)
                  | Inr v \<Rightarrow> Inr (js_or v (Some []))))
      else Inr (js_or (url_q r) (Some [])))"

definition fetch_minimal :: "provider \<Rightarrow> env \<Rightarrow> request \<Rightarrow> response \<times> provider_call list" where
  "fetch_minimal prov e r =
     (if http_method r = ''OPTIONS''
      then (\<lparr>status = 204, headers = CORS_HEADERS_minimal, body = NoBody\<rparr>, [])
      else (case minimal_query r of
              Inl err \<Rightarrow> (minimal_error err, [])
            | Inr q0 \<Rightarrow>
                (let q = trim (tmpl (js_or q0 (Some []))) in
                 if q = []
                 then (\<lparr>status = 200, headers = CORS_HEADERS_minimal, body = ResultsBody []\<rparr>, [])
                 else if truthy (SERPAPI_KEY e)
                 then (case serp_get prov q of
                         GetFailed m \<Rightarrow> minimal_error (Error m)
                       | GetNotOk \<Rightarrow> minimal_results []
                       | GetItems items \<Rightarrow> minimal_results (map serp_result (take 6 items)),
                       [SerpApiGet q (tmpl (SERPAPI_KEY e))])
                 else if truthy (GOOGLE_API_KEY e) \<and> truthy (GOOGLE_CX e)
                 then (case google_get prov q of
                         GetFailed m \<Rightarrow> minimal_error (Error m)
                       | GetNotOk \<Rightarrow> minimal_results []
                       | GetItems items \<Rightarrow> minimal_results (map google_result (take 6 items)),
                       [GoogleGet (tmpl (GOOGLE_API_KEY e)) (tmpl (GOOGLE_CX e)) q])
                 else (\<lparr>status = 400, headers = CORS_HEADERS_minimal,
                        body = ErrorBody
                          ''No search API key configured (SERPAPI_KEY or GOOGLE_API_KEY+GOOGLE_CX).''\<rparr>,
                       []))))"

definition minimal_worker ::
  "(provider \<Rightarrow> env \<Rightarrow> request \<Rightarrow> response \<times> provider_call list) module" where
  "minimal_worker = load_module minimal_worker_classes fetch_minimal"

section \<open>Notions used in the statements\<close>

subsection \<open>What the two services give, and a sample conversation\<close>

text \<open>
  The list \<open>performWebSearch\<close> returns and the outcome of \<open>callOpenAIWithMessages\<close>,
  as functions of the configuration, the network and the request; the transcript with the
  search results appended; the user message of a routine request.
\<close>

definition search_proxy :: "window \<Rightarrow> string option" where
  "search_proxy w =
     (if truthy (js_or (SEARCH_PROXY_URL w) (SEARCH_WORKER_URL w))
      then js_or (SEARCH_PROXY_URL w) (SEARCH_WORKER_URL w) else None)"

definition search_list :: "window \<Rightarrow> network \<Rightarrow> string \<Rightarrow> web_result list" where
  "search_list w net query =
     (case search_proxy w of
        None \<Rightarrow> []
      | Some proxy \<Rightarrow>
          (case search_net net proxy query of
             SearchRejected m \<Rightarrow> []
           | SearchResponse ok b \<Rightarrow>
               (case b of
                  Inr (JArray rs) \<Rightarrow> if ok then rs else []
                | Inr (JObject (Some rs)) \<Rightarrow> if ok then rs else []
                | _ \<Rightarrow> [])))"

definition chat_proxy :: "window \<Rightarrow> string" where
  "chat_proxy w = tmpl (js_or (CF_WORKER_URL w) (js_or (CLOUDFLARE_WORKER_URL w) (Some default_proxyUrl)))"

definition chat_result :: "window \<Rightarrow> network \<Rightarrow> message list \<Rightarrow> js_error + string" where
  "chat_result w net messages = read_chat_response (chat_net net (chat_proxy w) messages)"

definition with_results :: "web_result list \<Rightarrow> message list \<Rightarrow> message list" where
  "with_results webResults messages =
     (if webResults = [] then messages else messages @ [results_message webResults])"

definition user_message :: "product list \<Rightarrow> message" where
  "user_message selected =
     \<lparr>role = ''user'', content = user_prompt @ stringify_payload (map payload_of selected)\<rparr>"

text \<open>
  A sample page; a configuration without and with a search proxy; a network whose search
  proxy finds one result and whose chat proxy replies; the page after a routine has been
  generated for the gel and a question has been typed.
\<close>

definition page :: chat_state where
  "page = \<lparr>conversationMessages = [], routineGenerated = False, chatWindow = Some [],
           generateBtn_disabled = False, generateBtn_innerHTML = ''Generate Routine'',
           sendBtn_disabled = Some False, userInput = Some [], calls = []\<rparr>"

definition plain_window :: window where
  "plain_window = \<lparr>SEARCH_PROXY_URL = None, SEARCH_WORKER_URL = None, CF_WORKER_URL = None,
     CLOUDFLARE_WORKER_URL = None, window_OPENAI_API_KEY = None, window_OPENAIKEY = None\<rparr>"

definition search_window :: window where
  "search_window = plain_window\<lparr>SEARCH_PROXY_URL := Some ''https://search.example/search''\<rparr>"

definition hit :: web_result where
  "hit = \<lparr>title = Some ''Gel review'', snippet = None, url = Some ''https://example.com/gel''\<rparr>"

definition good_net :: network where
  "good_net = \<lparr>search_net = (\<lambda>u q. SearchResponse True (Inr (JObject (Some [hit])))),
               chat_net = (\<lambda>u ms. ChatContent ''Use the gel in the morning.'')\<rparr>"

definition asked :: chat_state where
  "asked = (generate_click search_window good_net [gel] page)\<lparr>userInput := Some ''how often?''\<rparr>"

text \<open>The call \<open>performWebSearch\<close> issues, when a search proxy is configured.\<close>

definition search_issue :: "window \<Rightarrow> string \<Rightarrow> chat_state \<Rightarrow> chat_state" where
  "search_issue w query s =
     (case search_proxy w of None \<Rightarrow> s | Some proxy \<Rightarrow> issue proxy (SearchQuery query) s)"

text \<open>The transcripts the two handlers send to the chat service.\<close>

definition generate_request :: "window \<Rightarrow> network \<Rightarrow> product list \<Rightarrow> message list" where
  "generate_request w net selected =
     with_results (search_list w net (generate_query (map payload_of selected)))
       [systemInstruction, user_message selected]"

definition follow_up_request :: "window \<Rightarrow> network \<Rightarrow> string \<Rightarrow> message list \<Rightarrow> message list" where
  "follow_up_request w net question transcript =
     with_results (search_list w net (question @ '' '' @ LOreal))
       (transcript @ [\<lparr>role = ''user'', content = question\<rparr>])"

subsection \<open>Requests without a key, and a sample chat request\<close>

text \<open>
  The query of a search request's body; a request whose content type is JSON; an
  environment in which the minimal worker finds no search key.
\<close>

definition query_of :: "req_body \<Rightarrow> string" where
  "query_of b = trim (tmpl (js_or (body_q b) (js_or (body_query b) (Some []))))"

definition is_json :: "request \<Rightarrow> bool" where
  "is_json r = str_includes (tmpl (js_or (content_type r) (Some []))) ''application/json''"

definition no_search_key :: "env \<Rightarrow> bool" where
  "no_search_key e = (\<not> truthy (SERPAPI_KEY e) \<and> \<not> (truthy (GOOGLE_API_KEY e) \<and> truthy (GOOGLE_CX e)))"

text \<open>
  A provider that finds nothing, an environment without any key, a search request for
  the gel, and a search request whose query is two spaces.
\<close>

definition quiet :: provider where
  "quiet = \<lparr>openai_search = (\<lambda>p. SearchParsed []), openai_reply = (\<lambda>i. Reply [] []),
            serp_get = (\<lambda>q. GetItems []), google_get = (\<lambda>q. GetItems [])\<rparr>"

definition no_keys :: env where
  "no_keys = \<lparr>OPENAI_API_KEY = None, SERPAPI_KEY = None, GOOGLE_API_KEY = None, GOOGLE_CX = None\<rparr>"

definition search_body :: req_body where
  "search_body = \<lparr>body_message = None, body_messages = None, body_q = Some ''gel'',
                   body_query = None\<rparr>"

definition search_post :: request where
  "search_post =
     \<lparr>http_method = ''POST'', pathname = ''/search'', content_type = Some ''application/json'',
      json = Inr search_body,
      form_q = Inl ''not a form'', url_q = None\<rparr>"

definition blank_body :: req_body where
  "blank_body = search_body\<lparr>body_q := Some ''  ''\<rparr>"

definition blank_post :: request where
  "blank_post = search_post\<lparr>json := Inr blank_body\<rparr>"

text \<open>
  The words of the specification for the chat request: the content of the last user turn
  of the messages; a line \<^verbatim>\<open>ROLE: content\<close>, the role in upper case; the three roles of
  a transcript; the messages of the request and the messages the worker forwards.
\<close>

definition last_user_turn :: "req_body \<Rightarrow> string" where
  "last_user_turn b =
     (case body_messages b of
        None \<Rightarrow> []
      | Some ms \<Rightarrow>
          (if filter (\<lambda>m. role m = ''user'') ms = [] then []
           else content (last (filter (\<lambda>m. role m = ''user'') ms))))"

definition toUpperCase_char :: "char \<Rightarrow> char" where
  "toUpperCase_char c =
     (let n = (of_char c :: nat) in if 97 \<le> n \<and> n \<le> 122 then char_of (n - 32) else c)"

definition role_line :: "message \<Rightarrow> string" where
  "role_line m = map toUpperCase_char (role m) @ '': '' @ content m"

definition known_role :: "message \<Rightarrow> bool" where
  "known_role m = (role m = ''system'' \<or> role m = ''user'' \<or> role m = ''assistant'')"

definition transcript_of :: "req_body \<Rightarrow> message list" where
  "transcript_of b = (case body_messages b of None \<Rightarrow> [] | Some ms \<Rightarrow> ms)"

definition forwarded_transcript :: "provider \<Rightarrow> env \<Rightarrow> req_body \<Rightarrow> message list" where
  "forwarded_transcript prov e b =
     fst (snd (chat_search prov e (messageString_of b) (transcript_of b)))"

text \<open>
  An environment with a key, a provider that finds seven results, and a chat request with
  three turns.
\<close>

definition with_key :: env where
  "with_key = no_keys\<lparr>OPENAI_API_KEY := Some ''sk-test''\<rparr>"

definition seven :: provider where
  "seven = quiet\<lparr>openai_search := (\<lambda>p. SearchParsed (replicate 7 hit)),
                  openai_reply := (\<lambda>i. Reply ''raw'' ''Use it daily.'')\<rparr>"

definition chat_body :: req_body where
  "chat_body =
     \<lparr>body_message = None,
      body_messages = Some [\<lparr>role = ''user'', content = ''first question''\<rparr>,
                            \<lparr>role = ''assistant'', content = ''an answer''\<rparr>,
                            \<lparr>role = ''user'', content = ''about the gel''\<rparr>],
      body_q = None, body_query = None\<rparr>"

definition chat_post :: request where
  "chat_post =
     \<lparr>http_method = ''POST'', pathname = ''/chat/'', content_type = Some ''application/json'',
      json = Inr chat_body, form_q = Inl ''not a form'', url_q = None\<rparr>"

section \<open>Properties of the selection and the grid\<close>

subsection \<open>Arrays\<close>

lemma findIndex_None: "findIndex P xs = None \<longleftrightarrow> (\<forall>x\<in>set xs. \<not> P x)"
  by (induction xs) (auto split: option.splits)

lemma findIndex_Some_less: "findIndex P xs = Some i \<Longrightarrow> i < length xs \<and> P (xs ! i)"
  by (induction xs arbitrary: i) (auto split: option.splits if_splits)

lemma findIndex_append_last:
  "\<forall>x\<in>set xs. \<not> P x \<Longrightarrow> P y \<Longrightarrow> findIndex P (xs @ [y]) = Some (length xs)"
  by (induction xs) auto

lemma splice1_length_append: "splice1 (length xs) (xs @ [y]) = xs"
  by (simp add: splice1_def)

lemma splice1_Cons_Suc: "splice1 (Suc i) (x # xs) = x # splice1 i xs"
  by (simp add: splice1_def)

lemma splice1_0: "splice1 0 (x # xs) = xs"
  by (simp add: splice1_def)

lemma splice1_filter:
  "distinct (map f xs) \<Longrightarrow> findIndex (\<lambda>p. f p = c) xs = Some i \<Longrightarrow>
   splice1 i xs = filter (\<lambda>q. f q \<noteq> c) xs"
proof (induction xs arbitrary: i)
  case Nil
  then show ?case by simp
next
  case (Cons x xs)
  show ?case
  proof (cases "f x = c")
    case True
    with Cons.prems have "i = 0" by simp
    moreover from True Cons.prems have "\<forall>q\<in>set xs. f q \<noteq> c" by (auto simp: image_iff)
    ultimately show ?thesis using True by (simp add: splice1_0)
  next
    case False
    with Cons.prems obtain j where j: "findIndex (\<lambda>p. f p = c) xs = Some j" "i = Suc j"
      by (auto split: option.splits)
    with Cons show ?thesis using False by (simp add: splice1_Cons_Suc)
  qed
qed

lemma set_splice1_subset: "set (splice1 i xs) \<subseteq> set xs"
  unfolding splice1_def by (metis set_append Un_least set_take_subset set_drop_subset)

lemma distinct_map_splice1:
  "distinct (map f xs) \<Longrightarrow> distinct (map f (splice1 i xs))"
proof (induction xs arbitrary: i)
  case Nil
  then show ?case by (simp add: splice1_def)
next
  case (Cons x xs)
  show ?case
  proof (cases i)
    case 0
    with Cons.prems show ?thesis by (simp add: splice1_0)
  next
    case (Suc j)
    have "f x \<notin> f ` set (splice1 j xs)"
      using Cons.prems set_splice1_subset [of j xs] by auto
    with Cons Suc show ?thesis by (simp add: splice1_Cons_Suc)
  qed
qed

subsection \<open>Substrings\<close>

lemma str_includes_Nil [simp]: "str_includes s []"
  by (induction s) auto

text \<open>\<open>str_includes s t\<close> holds exactly when \<open>t\<close> occurs in \<open>s\<close> as a substring.\<close>

lemma str_includes_iff: "str_includes s t \<longleftrightarrow> (\<exists>pre post. s = pre @ t @ post)"
proof (induction s)
  case Nil
  then show ?case by auto
next
  case (Cons c cs)
  show ?case
  proof
    assume "str_includes (c # cs) t"
    then consider "prefix t (c # cs)" | "str_includes cs t" by auto
    then show "\<exists>pre post. c # cs = pre @ t @ post"
    proof cases
      case 1
      then obtain post where "c # cs = t @ post" by (auto simp: prefix_def)
      then have "c # cs = [] @ t @ post" by simp
      then show ?thesis by blast
    next
      case 2
      with Cons obtain pre post where "cs = pre @ t @ post" by auto
      then have "c # cs = (c # pre) @ t @ post" by simp
      then show ?thesis by blast
    qed
  next
    assume "\<exists>pre post. c # cs = pre @ t @ post"
    then obtain pre post where e: "c # cs = pre @ t @ post" by auto
    show "str_includes (c # cs) t"
    proof (cases pre)
      case Nil
      with e have "prefix t (c # cs)" by (simp add: prefix_def)
      then show ?thesis by simp
    next
      case (Cons d pre')
      with e have "cs = pre' @ t @ post" by simp
      then have "str_includes cs t" using Cons.IH by blast
      then show ?thesis by simp
    qed
  qed
qed

subsection \<open>What each function does to the selection and to the id map\<close>

lemma selectedProducts_save [simp]:
  "selectedProducts (saveSelectedToStorage s) = selectedProducts s"
  by (simp add: saveSelectedToStorage_def)

lemma selectedProducts_update [simp]:
  "selectedProducts (updateSelectedList s) = selectedProducts s"
  by (simp add: updateSelectedList_def)

lemma productsById_save [simp]: "productsById (saveSelectedToStorage s) = productsById s"
  by (simp add: saveSelectedToStorage_def)

lemma productsById_update [simp]: "productsById (updateSelectedList s) = productsById s"
  by (simp add: updateSelectedList_def)

lemma selectedProducts_displayProducts [simp]:
  "selectedProducts (state_after (displayProducts ps s)) = selectedProducts s"
  by (simp add: displayProducts_def Let_def)

lemma selectedProducts_updateProductGrid [simp]:
  "selectedProducts (state_after (updateProductGrid lc fetched cat search s)) = selectedProducts s"
  by (simp add: updateProductGrid_def Let_def split: option.splits)

lemma selectedProducts_toggle:
  "selectedProducts (toggleSelection cid s) =
     (case productsById s cid of
        None \<Rightarrow> selectedProducts s
      | Some prd \<Rightarrow>
          (case findIndex (\<lambda>p. pid p = cid) (selectedProducts s) of
             None \<Rightarrow> selectedProducts s @ [prd]
           | Some i \<Rightarrow> splice1 i (selectedProducts s)))"
  by (simp add: toggleSelection_def split: option.splits)

lemma productsById_toggle [simp]: "productsById (toggleSelection cid s) = productsById s"
  by (simp add: toggleSelection_def split: option.splits)

lemma selectedProducts_removeChip:
  "selectedProducts (removeChip cid s) =
     (case findIndex (\<lambda>p. pid p = cid) (selectedProducts s) of
        None \<Rightarrow> selectedProducts s
      | Some i \<Rightarrow> splice1 i (selectedProducts s))"
  by (simp add: removeChip_def Let_def split: option.splits)

lemma selectedProducts_clear [simp]: "selectedProducts (clearAllSelections s) = []"
  by (simp add: clearAllSelections_def)

subsection \<open>The id map\<close>

lemma keyed_by_id_upd: "keyed_by_id m \<Longrightarrow> keyed_by_id (m(pid p \<mapsto> p))"
  unfolding keyed_by_id_def by (metis fun_upd_apply option.inject)

lemma keyed_by_id_fold:
  "keyed_by_id m \<Longrightarrow> keyed_by_id (fold (\<lambda>p m. m(pid p \<mapsto> p)) ps m)"
proof (induction ps arbitrary: m)
  case Nil
  then show ?case by simp
next
  case (Cons p ps)
  from Cons.prems have "keyed_by_id (m(pid p \<mapsto> p))" by (rule keyed_by_id_upd)
  then have "keyed_by_id (fold (\<lambda>p m. m(pid p \<mapsto> p)) ps (m(pid p \<mapsto> p)))"
    by (rule Cons.IH)
  then show ?case by (simp only: fold_simps)
qed

lemma keyed_by_id_empty: "keyed_by_id Map.empty"
  by (simp add: keyed_by_id_def)

lemma ran_fun_upd_subset: "ran (m(k \<mapsto> v)) \<subseteq> ran m \<union> {v}"
  by (auto simp: ran_def)

lemma ran_fold_subset:
  "ran (fold (\<lambda>p m. m(pid p \<mapsto> p)) ps m) \<subseteq> ran m \<union> set ps"
proof (induction ps arbitrary: m)
  case Nil
  then show ?case by simp
next
  case (Cons p ps)
  have "ran (fold (\<lambda>p m. m(pid p \<mapsto> p)) (p # ps) m) =
        ran (fold (\<lambda>p m. m(pid p \<mapsto> p)) ps (m(pid p \<mapsto> p)))"
    by simp
  also have "\<dots> \<subseteq> ran (m(pid p \<mapsto> p)) \<union> set ps"
    by (rule Cons.IH)
  also have "\<dots> \<subseteq> ran m \<union> set (p # ps)"
    using ran_fun_upd_subset [of m "pid p" p] by auto
  finally show ?case .
qed

lemma byId_ok_displayProducts:
  assumes "set ps \<subseteq> set catalog"
  shows "byId_ok catalog (productsById (state_after (displayProducts ps s)))"
proof -
  have "keyed_by_id (fold (\<lambda>p m. m(pid p \<mapsto> p)) ps Map.empty)"
    using keyed_by_id_empty by (rule keyed_by_id_fold)
  moreover have "ran (fold (\<lambda>p m. m(pid p \<mapsto> p)) ps Map.empty) \<subseteq> set catalog"
    using ran_fold_subset [of ps Map.empty] assms by auto
  ultimately show ?thesis by (simp add: byId_ok_def displayProducts_def Let_def)
qed

lemma productsById_loaded: "byId_ok [gel, cream] (productsById loaded)"
  unfolding loaded_def init_def start_def updateProductGrid_def
  by (simp add: Let_def filtered_products_def searchTerm_of_def selectedCategory_of_def
      updateSelectedList_def byId_ok_displayProducts)

subsection \<open>Persistence of the selection\<close>

text \<open>
  Removing a chip and clearing the selection always end with \<open>saveSelectedToStorage\<close>;
  a toggle persists only through \<open>updateSelectedList\<close>, which returns before its
  last line when the selection has become empty.
\<close>

lemma storage_removeChip:
  "storage_writable s \<Longrightarrow>
   storage (removeChip cid s) = IdArray (map pid (selectedProducts (removeChip cid s)))"
  by (simp add: removeChip_def Let_def saveSelectedToStorage_def updateSelectedList_def
      split: option.splits)

lemma storage_clearAllSelections:
  "storage_writable s \<Longrightarrow>
   storage (clearAllSelections s) = IdArray (map pid (selectedProducts (clearAllSelections s)))"
  by (simp add: clearAllSelections_def saveSelectedToStorage_def updateSelectedList_def)

lemma storage_toggleSelection_nonempty:
  assumes "storage_writable s" "has_selected_list s" "productsById s cid = Some prd"
    and "selectedProducts (toggleSelection cid s) \<noteq> []"
  shows "storage (toggleSelection cid s) =
         IdArray (map pid (selectedProducts (toggleSelection cid s)))"
  using assms
  by (simp add: toggleSelection_def saveSelectedToStorage_def updateSelectedList_def
      split: option.splits if_splits)

lemma storage_toggleSelection_empty:
  assumes "productsById s cid = Some prd"
    and "selectedProducts (toggleSelection cid s) = []"
  shows "storage (toggleSelection cid s) = storage s"
  using assms
  by (simp add: toggleSelection_def saveSelectedToStorage_def updateSelectedList_def
      split: option.splits if_splits)

text \<open>
  Claim C1: after every selection mutation (a toggle on a card, the removal of a chip,
  the clearing of all selections) the storage entry \<^verbatim>\<open>selectedProductIds\<close> is the
  array of the ids of the current selection, in its order. The code breaks this when a
  toggle deselects the last selected product: with the sample catalog loaded, selecting
  the gel stores \<open>[1]\<close>; deselecting it empties the selection and leaves \<open>[1]\<close> in the
  storage, so that the next start-up selects the gel again.
\<close>

theorem toggle_off_last_product_is_not_persisted:
  "selectedProducts (toggleSelection 1 loaded) = [gel] \<and>
   storage (toggleSelection 1 loaded) = IdArray [1] \<and>
   selectedProducts (toggleSelection 1 (toggleSelection 1 loaded)) = [] \<and>
   storage (toggleSelection 1 (toggleSelection 1 loaded)) = IdArray [1] \<and>
   selectedProducts
     (init ascii_toLowerCase (Some [gel, cream]) None None
        (start\<lparr>storage := storage (toggleSelection 1 (toggleSelection 1 loaded))\<rparr>)) = [gel]"
  by code_simp

text \<open>
  The scenario of the specification: the category filter shows the gel only; selecting
  the gel, then the cream, then removing the gel's chip leaves the cream selected and
  stored; the search text \<open>re\<close> shows the cream only.
\<close>

lemma scenario:
  "grid (state_after (updateProductGrid ascii_toLowerCase None (Some ''cleanser'') (Some []) loaded)) =
     [gel]"
  "selectedProducts both_selected = [gel, cream]"
  "selectedProducts (removeChip 1 both_selected) = [cream]"
  "storage (removeChip 1 both_selected) = IdArray [2]"
  "grid (state_after (updateProductGrid ascii_toLowerCase None (Some []) (Some ''re'') loaded)) =
     [cream]"
  by code_simp+

subsection \<open>Toggling twice\<close>

text \<open>
  Claim C2, as amended: toggling a product twice restores the membership of the selection
  (the same ids, none twice). It restores the order too when the product was not selected
  before; a product that was selected is removed and then appended, so it ends up last.
\<close>

theorem toggle_twice:
  assumes "keyed_by_id (productsById s)" and "no_duplicate_ids (selectedProducts s)"
  shows "set (map pid (selectedProducts (toggleSelection cid (toggleSelection cid s)))) =
           set (map pid (selectedProducts s)) \<and>
         no_duplicate_ids (selectedProducts (toggleSelection cid (toggleSelection cid s))) \<and>
         (cid \<notin> set (map pid (selectedProducts s)) \<longrightarrow>
            selectedProducts (toggleSelection cid (toggleSelection cid s)) = selectedProducts s) \<and>
         (\<forall>prd. cid \<in> set (map pid (selectedProducts s)) \<and> productsById s cid = Some prd \<longrightarrow>
            selectedProducts (toggleSelection cid (toggleSelection cid s)) =
              filter (\<lambda>q. pid q \<noteq> cid) (selectedProducts s) @ [prd])"
proof -
  let ?sel = "selectedProducts s"
  let ?sel2 = "selectedProducts (toggleSelection cid (toggleSelection cid s))"
  from assms(1) have ok: "\<And>p. productsById s cid = Some p \<Longrightarrow> pid p = cid"
    by (simp add: keyed_by_id_def)
  from assms(2) have d: "distinct (map pid ?sel)" by (simp add: no_duplicate_ids_def)
  have absent: "?sel2 = ?sel" if a: "cid \<notin> set (map pid ?sel)"
  proof (cases "productsById s cid")
    case None
    then show ?thesis by (simp add: selectedProducts_toggle)
  next
    case (Some prd)
    with ok have p: "pid prd = cid" by simp
    from a have n: "findIndex (\<lambda>p. pid p = cid) ?sel = None"
      by (auto simp: findIndex_None)
    from a have "\<forall>x\<in>set ?sel. \<not> pid x = cid" by auto
    then have f: "findIndex (\<lambda>p. pid p = cid) (?sel @ [prd]) = Some (length ?sel)"
      using p by (rule findIndex_append_last)
    show ?thesis by (simp add: selectedProducts_toggle Some n f splice1_length_append)
  qed
  have present: "?sel2 = filter (\<lambda>q. pid q \<noteq> cid) ?sel @ [prd]"
    if a: "cid \<in> set (map pid ?sel)" and b: "productsById s cid = Some prd" for prd
  proof -
    from a obtain i where i: "findIndex (\<lambda>p. pid p = cid) ?sel = Some i"
      by (cases "findIndex (\<lambda>p. pid p = cid) ?sel") (auto simp: findIndex_None)
    have sp: "splice1 i ?sel = filter (\<lambda>q. pid q \<noteq> cid) ?sel"
      using d i by (rule splice1_filter)
    have n: "findIndex (\<lambda>p. pid p = cid) (filter (\<lambda>q. pid q \<noteq> cid) ?sel) = None"
      by (simp add: findIndex_None)
    show ?thesis by (simp add: selectedProducts_toggle b i sp n)
  qed
  have unseen: "?sel2 = ?sel" if "productsById s cid = None"
    using that by (simp add: selectedProducts_toggle)
  have ids: "set (map pid ?sel2) = set (map pid ?sel) \<and> distinct (map pid ?sel2)"
  proof (cases "cid \<in> set (map pid ?sel)")
    case False
    with absent d show ?thesis by simp
  next
    case True
    show ?thesis
    proof (cases "productsById s cid")
      case None
      with unseen d show ?thesis by simp
    next
      case (Some prd)
      with ok have p: "pid prd = cid" by simp
      have e: "?sel2 = filter (\<lambda>q. pid q \<noteq> cid) ?sel @ [prd]"
        using True Some by (rule present)
      have "set (map pid ?sel2) = set (map pid ?sel)"
        using True p unfolding e by auto
      moreover have "distinct (map pid ?sel2)"
        using d p unfolding e by (auto simp: distinct_map_filter)
      ultimately show ?thesis by simp
    qed
  qed
  from ids absent present show ?thesis
    unfolding no_duplicate_ids_def by blast
qed

theorem toggle_twice_witness:
  "keyed_by_id (productsById both_selected) \<and>
   no_duplicate_ids (selectedProducts both_selected) \<and>
   1 \<in> set (map pid (selectedProducts both_selected)) \<and>
   productsById both_selected 1 = Some gel \<and>
   selectedProducts (toggleSelection 1 (toggleSelection 1 both_selected)) =
     filter (\<lambda>q. pid q \<noteq> 1) (selectedProducts both_selected) @ [gel] \<and>
   3 \<notin> set (map pid (selectedProducts both_selected)) \<and>
   selectedProducts (toggleSelection 3 (toggleSelection 3 both_selected)) =
     selectedProducts both_selected"
proof -
  have g: "productsById both_selected = productsById loaded"
    by (simp add: both_selected_def)
  have k: "keyed_by_id (productsById both_selected)"
    using productsById_loaded by (simp add: g byId_ok_def)
  have n: "no_duplicate_ids (selectedProducts both_selected)"
    by code_simp
  have m1: "1 \<in> set (map pid (selectedProducts both_selected))" by code_simp
  have m3: "3 \<notin> set (map pid (selectedProducts both_selected))" by code_simp
  have b: "productsById both_selected 1 = Some gel" by code_simp
  from toggle_twice [OF k n, of 1] toggle_twice [OF k n, of 3] k n m1 m3 b
  show ?thesis by blast
qed

text \<open>
  Claim C2 as stated fails: with the gel and the cream selected in this order, toggling
  the gel twice leaves the cream first.
\<close>

theorem toggle_twice_moves_to_end:
  "map pid (selectedProducts both_selected) = [1, 2] \<and>
   map pid (selectedProducts (toggleSelection 1 (toggleSelection 1 both_selected))) = [2, 1]"
  by code_simp

subsection \<open>The filtered grid\<close>

lemma contains_ignoring_case_iff:
  "contains_ignoring_case lc text term \<longleftrightarrow>
     (\<exists>pre post. lc text = pre @ lc term @ post)"
  by (simp add: contains_ignoring_case_def str_includes_iff)

lemma find_False: "find (\<lambda>w. False) ws = None"
  by (induction ws) auto

lemma strip_Nil [simp]: "strip ws [] = []"
  by (subst strip.simps) (simp add: find_False)

lemma trim_Nil [simp]: "trim [] = []"
  by (simp add: trim_def trimStart_def trimEnd_def)

lemma ascii_toLowerCase_Nil [simp]: "ascii_toLowerCase [] = []"
  by (simp add: ascii_toLowerCase_def)



text \<open>
  When a product to show has no name, the rendering throws and the grid stays as it was.
\<close>

lemma updateProductGrid_unnamed:
  assumes "(if allProducts s \<noteq> [] then Some (allProducts s) else fetched) = Some products"
    and "\<not> list_all has_name (filtered_products lc products cat search)"
  shows "updateProductGrid lc fetched cat search s =
           Thrown (state_after (updateProductGrid lc fetched cat search s)) \<and>
         grid (state_after (updateProductGrid lc fetched cat search s)) = grid s"
  using assms by (auto simp: updateProductGrid_def Let_def displayProducts_def)

text \<open>
  Two samples: a search text that ends with a no-break space (U+00A0, two bytes in UTF-8)
  shows the gel; a product list with a product that has no name leaves the grid as it was.
\<close>

lemma rendering_samples:
  "grid (state_after
          (updateProductGrid ascii_toLowerCase None (Some [])
             (Some (''gel'' @ [CHR 0xC2, CHR 0xA0])) loaded)) = [gel] \<and>
   (case updateProductGrid ascii_toLowerCase None None None
           (loaded\<lparr>allProducts := [placeholder 3, gel], grid := [cream]\<rparr>) of
      Thrown t \<Rightarrow> grid t = [cream]
    | Returned t \<Rightarrow> False)"
  by code_simp




subsection \<open>The invariants of the selection\<close>

lemma ids_in_catalog_iff:
  "ids_in_catalog catalog sel \<longleftrightarrow> (\<forall>p\<in>set sel. pid p \<in> pid ` set catalog)"
  by (simp add: ids_in_catalog_def list_all_iff)

lemma selection_ok_Nil [simp]: "selection_ok catalog []"
  by (simp add: selection_ok_def no_duplicate_ids_def ids_in_catalog_def)

lemma selection_ok_splice1:
  "selection_ok catalog sel \<Longrightarrow> selection_ok catalog (splice1 i sel)"
  using set_splice1_subset [of i sel]
  by (auto simp: selection_ok_def no_duplicate_ids_def ids_in_catalog_iff distinct_map_splice1)

lemma selection_ok_filter_catalog:
  "distinct (map pid catalog) \<Longrightarrow> selection_ok catalog (filter P catalog)"
  by (auto simp: selection_ok_def no_duplicate_ids_def ids_in_catalog_iff distinct_map_filter)

lemma selection_ok_toggle:
  assumes "byId_ok catalog (productsById s)" and "selection_ok catalog (selectedProducts s)"
  shows "selection_ok catalog (selectedProducts (toggleSelection cid s))"
proof (cases "productsById s cid")
  case None
  with assms show ?thesis by (simp add: selectedProducts_toggle)
next
  case (Some prd)
  then have "prd \<in> ran (productsById s)" by (rule ranI)
  with assms(1) Some have p: "pid prd = cid" "prd \<in> set catalog"
    by (auto simp: byId_ok_def keyed_by_id_def)
  show ?thesis
  proof (cases "findIndex (\<lambda>p. pid p = cid) (selectedProducts s)")
    case None
    then have "cid \<notin> pid ` set (selectedProducts s)"
      by (auto simp: findIndex_None)
    with assms(2) p have "selection_ok catalog (selectedProducts s @ [prd])"
      by (auto simp: selection_ok_def no_duplicate_ids_def ids_in_catalog_iff)
    with Some None show ?thesis by (simp add: selectedProducts_toggle)
  next
    case (Some i)
    with \<open>productsById s cid = Some prd\<close> assms(2) show ?thesis
      by (simp add: selectedProducts_toggle selection_ok_splice1)
  qed
qed

lemma selection_ok_removeChip:
  "selection_ok catalog (selectedProducts s) \<Longrightarrow>
   selection_ok catalog (selectedProducts (removeChip cid s))"
  by (simp add: selectedProducts_removeChip selection_ok_splice1 split: option.splits)

lemma selectedProducts_init:
  "selectedProducts (init lc fetched cat search s) =
     (case fetched of
        None \<Rightarrow> selectedProducts s
      | Some ps \<Rightarrow>
          (case storage s of
             IdArray ids \<Rightarrow>
               if ids \<noteq> [] then filter (\<lambda>p. pid p \<in> set ids) ps else selectedProducts s
           | _ \<Rightarrow> selectedProducts s))"
  by (simp add: init_def Let_def split: option.splits stored.splits)

lemma selection_ok_init:
  assumes "distinct (map pid catalog)" and "selection_ok catalog (selectedProducts s)"
  shows "selection_ok catalog (selectedProducts (init lc (Some catalog) cat search s))"
  using assms
  by (simp add: selectedProducts_init selection_ok_filter_catalog split: stored.splits)

lemma selectedProducts_loadSelectedFromStorage:
  "selectedProducts (loadSelectedFromStorage s) =
     (case storage s of
        IdArray ids \<Rightarrow>
          if allProducts s \<noteq> [] then filter (\<lambda>p. pid p \<in> set ids) (allProducts s)
          else map placeholder ids
      | _ \<Rightarrow> selectedProducts s)"
  by (simp add: loadSelectedFromStorage_def split: stored.splits)

lemma pid_placeholder [simp]: "pid (placeholder i) = i"
  by (simp add: placeholder_def)

lemma map_pid_placeholder [simp]: "map (pid \<circ> placeholder) ids = ids"
  by (induction ids) simp_all

lemma set_filtered_products_subset: "set (filtered_products lc ps cat search) \<subseteq> set ps"
  by (auto simp: filtered_products_def Let_def)

lemma byId_ok_updateProductGrid:
  assumes "byId_ok catalog (productsById s)"
    and "allProducts s = [] \<or> allProducts s = catalog"
    and "fetched = None \<or> fetched = Some catalog"
  shows "byId_ok catalog (productsById (state_after (updateProductGrid lc fetched cat search s)))"
proof (cases "if allProducts s \<noteq> [] then Some (allProducts s) else fetched")
  case None
  with assms(1) show ?thesis by (simp add: updateProductGrid_def)
next
  case (Some ps)
  with assms(2,3) have ps: "ps = catalog" by (auto split: if_splits)
  show ?thesis
  proof (cases "filtered_products lc ps cat search = []")
    case True
    with Some assms(1) show ?thesis by (simp add: updateProductGrid_def)
  next
    case False
    have "byId_ok catalog
            (productsById (state_after (displayProducts (filtered_products lc ps cat search) s)))"
      using set_filtered_products_subset [of lc ps cat search] ps
      by (intro byId_ok_displayProducts) simp
    with Some False show ?thesis by (simp add: updateProductGrid_def)
  qed
qed

lemma stored_ids_distinct_save:
  "no_duplicate_ids (selectedProducts s) \<Longrightarrow> stored_ids_distinct (storage s) \<Longrightarrow>
   stored_ids_distinct (storage (saveSelectedToStorage s))"
  by (simp add: saveSelectedToStorage_def stored_ids_distinct_def no_duplicate_ids_def)

text \<open>
  Claim C9: every operation that produces a selection (the toggle, the removal of a chip,
  the clearing, and the rehydration from the storage, both at start-up in \<open>init\<close> and
  in \<open>loadSelectedFromStorage\<close>) preserves that the selection has no duplicate ids
  and that every selected id is the id of a product of the catalog. The catalog's ids are
  distinct; the id map is the one \<open>displayProducts\<close> builds (\<open>byId_ok\<close>). Before the
  catalog has loaded, \<open>loadSelectedFromStorage\<close> selects placeholders for the stored
  ids, which are distinct when the stored ids are (as those the page itself writes).
\<close>

theorem selection_invariants_preserved:
  assumes "distinct (map pid catalog)"
  shows "(byId_ok catalog (productsById s) \<and> selection_ok catalog (selectedProducts s) \<longrightarrow>
            selection_ok catalog (selectedProducts (toggleSelection cid s))) \<and>
         (selection_ok catalog (selectedProducts s) \<longrightarrow>
            selection_ok catalog (selectedProducts (removeChip cid s))) \<and>
         selection_ok catalog (selectedProducts (clearAllSelections s)) \<and>
         (selection_ok catalog (selectedProducts s) \<longrightarrow>
            selection_ok catalog (selectedProducts (init lc (Some catalog) cat search s)) \<and>
            selection_ok catalog (selectedProducts (init lc None cat search s))) \<and>
         (allProducts s = catalog \<and> catalog \<noteq> [] \<and> selection_ok catalog (selectedProducts s) \<longrightarrow>
            selection_ok catalog (selectedProducts (loadSelectedFromStorage s))) \<and>
         (allProducts s = [] \<and> stored_ids_distinct (storage s) \<and>
          no_duplicate_ids (selectedProducts s) \<longrightarrow>
            no_duplicate_ids (selectedProducts (loadSelectedFromStorage s)))"
proof -
  have load: "selection_ok catalog (selectedProducts (loadSelectedFromStorage s))"
    if "allProducts s = catalog" "catalog \<noteq> []" "selection_ok catalog (selectedProducts s)"
    using that assms
    by (simp add: selectedProducts_loadSelectedFromStorage selection_ok_filter_catalog
        split: stored.splits)
  have early: "no_duplicate_ids (selectedProducts (loadSelectedFromStorage s))"
    if "allProducts s = []" "stored_ids_distinct (storage s)"
      "no_duplicate_ids (selectedProducts s)"
    using that
    by (simp add: selectedProducts_loadSelectedFromStorage stored_ids_distinct_def
        no_duplicate_ids_def split: stored.splits)
  have none: "selectedProducts (init lc None cat search s) = selectedProducts s"
    by (simp add: selectedProducts_init)
  show ?thesis
    using selection_ok_toggle [of catalog s cid] selection_ok_removeChip [of catalog s cid]
      selection_ok_init [OF assms, where s = s and cat = cat and search = search and lc = lc] load early none
    by simp
qed

theorem selection_invariants_preserved_witness:
  "distinct (map pid [gel, cream]) \<and>
   byId_ok [gel, cream] (productsById both_selected) \<and>
   selection_ok [gel, cream] (selectedProducts both_selected) \<and>
   selection_ok [gel, cream] (selectedProducts (toggleSelection 1 both_selected)) \<and>
   selection_ok [gel, cream] (selectedProducts (removeChip 2 both_selected)) \<and>
   selection_ok [gel, cream] (selectedProducts (clearAllSelections both_selected)) \<and>
   selection_ok [gel, cream]
     (selectedProducts (init ascii_toLowerCase (Some [gel, cream]) None None both_selected)) \<and>
   allProducts both_selected = [gel, cream] \<and>
   selection_ok [gel, cream] (selectedProducts (loadSelectedFromStorage both_selected)) \<and>
   allProducts stored_12 = [] \<and> stored_ids_distinct (storage stored_12) \<and>
   no_duplicate_ids (selectedProducts stored_12) \<and>
   no_duplicate_ids (selectedProducts (loadSelectedFromStorage stored_12))"
proof -
  have d: "distinct (map pid [gel, cream])" by code_simp
  have "productsById both_selected = productsById loaded"
    by (simp add: both_selected_def)
  then have b: "byId_ok [gel, cream] (productsById both_selected)"
    using productsById_loaded by simp
  have o: "selection_ok [gel, cream] (selectedProducts both_selected)" by code_simp
  have a: "allProducts both_selected = [gel, cream]" by code_simp
  have e: "allProducts stored_12 = []" "stored_ids_distinct (storage stored_12)"
    "no_duplicate_ids (selectedProducts stored_12)" by code_simp+
  have n: "[gel, cream] \<noteq> []" by simp
  from selection_invariants_preserved
      [OF d, where s = both_selected and cid = 1 and cat = None and search = None
         and lc = ascii_toLowerCase]
    selection_invariants_preserved
      [OF d, where s = both_selected and cid = 2 and cat = None and search = None
         and lc = ascii_toLowerCase]
    selection_invariants_preserved
      [OF d, where s = stored_12 and cid = 1 and cat = None and search = None
         and lc = ascii_toLowerCase]
    d b o a e n
  show ?thesis by simp
qed

section \<open>Properties of the conversation\<close>

lemma truthy_Some [simp]: "truthy (Some x) \<longleftrightarrow> x \<noteq> []"
  by (simp add: truthy_def)

lemma truthy_None [simp]: "\<not> truthy None"
  by (simp add: truthy_def)

lemma truthy_js_or [simp]: "truthy (js_or a b) \<longleftrightarrow> truthy a \<or> truthy b"
  by (simp add: js_or_def)

lemma default_proxyUrl_nonempty [simp]: "default_proxyUrl \<noteq> []"
  by (simp add: default_proxyUrl_def)

lemma performWebSearch_eq:
  "performWebSearch w net query s = (Inr (search_list w net query), search_issue w query s)"
proof (cases "js_or (SEARCH_PROXY_URL w) (SEARCH_WORKER_URL w)")
  case None
  then show ?thesis
    by (simp add: performWebSearch_def search_list_def search_issue_def search_proxy_def)
next
  case (Some proxy)
  show ?thesis
  proof (cases "proxy = []")
    case True
    with Some show ?thesis
      by (simp add: performWebSearch_def search_list_def search_issue_def search_proxy_def)
  next
    case False
    with Some have p: "search_proxy w = Some proxy"
      by (simp add: search_proxy_def)
    show ?thesis
      using Some False
      by (simp add: performWebSearch_def search_list_def search_issue_def p
          read_search_response_def
          split: search_response.splits sum.splits json_body.splits option.splits)
  qed
qed

lemma callOpenAIWithMessages_eq:
  "callOpenAIWithMessages w net messages s =
     (chat_result w net messages, issue (chat_proxy w) (ChatMessages messages) s)"
  by (simp add: callOpenAIWithMessages_def Let_def chat_result_def chat_proxy_def)

text \<open>
  Claim C10: for every query and every behaviour of the search proxy, \<open>performWebSearch\<close>
  does not throw and returns a list: nothing when no proxy is configured; the array, or
  the array under \<^verbatim>\<open>results\<close>, of a response that is ok and whose body is JSON of one of
  these two shapes; and nothing when the fetch rejects, the response is not ok, the body
  does not parse, or the JSON has another shape.
\<close>

theorem performWebSearch_never_throws:
  "fst (performWebSearch w net query s) =
     Inr (if \<not> truthy (js_or (SEARCH_PROXY_URL w) (SEARCH_WORKER_URL w)) then []
          else (case search_net net (tmpl (js_or (SEARCH_PROXY_URL w) (SEARCH_WORKER_URL w))) query of
                  SearchRejected m \<Rightarrow> []
                | SearchResponse ok b \<Rightarrow>
                    if \<not> ok then []
                    else (case b of
                            Inl m \<Rightarrow> []
                          | Inr (JArray rs) \<Rightarrow> rs
                          | Inr (JObject (Some rs)) \<Rightarrow> rs
                          | Inr (JObject None) \<Rightarrow> []
                          | Inr JNull \<Rightarrow> []
                          | Inr JOther \<Rightarrow> [])))"
  by (auto simp: performWebSearch_eq search_list_def search_proxy_def tmpl_def truthy_def
      split: option.splits search_response.splits sum.splits json_body.splits)

subsection \<open>What the handlers do to each part of the page\<close>

lemma issue_fields [simp]:
  "conversationMessages (issue u b s) = conversationMessages s"
  "routineGenerated (issue u b s) = routineGenerated s"
  "chatWindow (issue u b s) = chatWindow s"
  "generateBtn_disabled (issue u b s) = generateBtn_disabled s"
  "generateBtn_innerHTML (issue u b s) = generateBtn_innerHTML s"
  "sendBtn_disabled (issue u b s) = sendBtn_disabled s"
  "userInput (issue u b s) = userInput s"
  "calls (issue u b s) = calls s @
     [\<lparr>call_url = u, call_body = b, generateBtn_was_disabled = generateBtn_disabled s,
       sendBtn_was_disabled = sendBtn_disabled s\<rparr>]"
  by (simp_all add: issue_def)

lemma search_issue_fields [simp]:
  "conversationMessages (search_issue w q s) = conversationMessages s"
  "routineGenerated (search_issue w q s) = routineGenerated s"
  "chatWindow (search_issue w q s) = chatWindow s"
  "generateBtn_disabled (search_issue w q s) = generateBtn_disabled s"
  "generateBtn_innerHTML (search_issue w q s) = generateBtn_innerHTML s"
  "sendBtn_disabled (search_issue w q s) = sendBtn_disabled s"
  "userInput (search_issue w q s) = userInput s"
  by (simp_all add: search_issue_def split: option.splits)

lemma calls_search_issue:
  "calls (search_issue w q s) = calls s @
     (case search_proxy w of
        None \<Rightarrow> []
      | Some proxy \<Rightarrow>
          [\<lparr>call_url = proxy, call_body = SearchQuery q,
            generateBtn_was_disabled = generateBtn_disabled s,
            sendBtn_was_disabled = sendBtn_disabled s\<rparr>])"
  by (simp add: search_issue_def split: option.splits)

lemma appendMessageToChat_fields [simp]:
  "conversationMessages (appendMessageToChat r c s) = conversationMessages s"
  "routineGenerated (appendMessageToChat r c s) = routineGenerated s"
  "generateBtn_disabled (appendMessageToChat r c s) = generateBtn_disabled s"
  "generateBtn_innerHTML (appendMessageToChat r c s) = generateBtn_innerHTML s"
  "sendBtn_disabled (appendMessageToChat r c s) = sendBtn_disabled s"
  "userInput (appendMessageToChat r c s) = userInput s"
  "calls (appendMessageToChat r c s) = calls s"
  "chatWindow (appendMessageToChat r c s) = map_option (\<lambda>win. win @ [ChatMsg r c]) (chatWindow s)"
  by (simp_all add: appendMessageToChat_def split: option.splits)

lemma appendCitationsToChat_fields [simp]:
  "conversationMessages (appendCitationsToChat rs s) = conversationMessages s"
  "routineGenerated (appendCitationsToChat rs s) = routineGenerated s"
  "generateBtn_disabled (appendCitationsToChat rs s) = generateBtn_disabled s"
  "generateBtn_innerHTML (appendCitationsToChat rs s) = generateBtn_innerHTML s"
  "sendBtn_disabled (appendCitationsToChat rs s) = sendBtn_disabled s"
  "userInput (appendCitationsToChat rs s) = userInput s"
  "calls (appendCitationsToChat rs s) = calls s"
  by (simp_all add: appendCitationsToChat_def split: option.splits)

lemma push_message_fields [simp]:
  "conversationMessages (push_message m s) = conversationMessages s @ [m]"
  "routineGenerated (push_message m s) = routineGenerated s"
  "chatWindow (push_message m s) = chatWindow s"
  "generateBtn_disabled (push_message m s) = generateBtn_disabled s"
  "generateBtn_innerHTML (push_message m s) = generateBtn_innerHTML s"
  "sendBtn_disabled (push_message m s) = sendBtn_disabled s"
  "userInput (push_message m s) = userInput s"
  "calls (push_message m s) = calls s"
  by (simp_all add: push_message_def)

subsection \<open>The transcript\<close>

lemma generate_try_messages:
  "conversationMessages (generate_try w net items s) =
     (let asked = with_results (search_list w net (generate_query items)) (conversationMessages s)
      in asked @ (case chat_result w net asked of
                    Inl err \<Rightarrow> []
                  | Inr c \<Rightarrow> [\<lparr>role = ''assistant'', content = c\<rparr>]))"
  by (simp add: generate_try_def performWebSearch_eq callOpenAIWithMessages_eq Let_def
      with_results_def split: sum.splits)

lemma generate_try_routineGenerated:
  "routineGenerated (generate_try w net items s) =
     (case chat_result w net
             (with_results (search_list w net (generate_query items)) (conversationMessages s)) of
        Inl err \<Rightarrow> routineGenerated s
      | Inr c \<Rightarrow> True)"
  by (simp add: generate_try_def performWebSearch_eq callOpenAIWithMessages_eq Let_def
      with_results_def split: sum.splits)

lemma generate_click_messages:
  "selected \<noteq> [] \<Longrightarrow>
   conversationMessages (generate_click w net selected s) =
     generate_request w net selected @
     (case chat_result w net (generate_request w net selected) of
        Inl err \<Rightarrow> []
      | Inr c \<Rightarrow> [\<lparr>role = ''assistant'', content = c\<rparr>])"
  by (simp add: generate_click_def Let_def generate_try_messages generate_request_def
      user_message_def)

lemma generate_click_routineGenerated:
  "selected \<noteq> [] \<Longrightarrow>
   routineGenerated (generate_click w net selected s) =
     (case chat_result w net (generate_request w net selected) of
        Inl err \<Rightarrow> routineGenerated s
      | Inr c \<Rightarrow> True)"
  by (simp add: generate_click_def Let_def generate_try_routineGenerated generate_request_def
      user_message_def split: sum.splits)

lemma chatForm_reply_messages:
  "conversationMessages (chatForm_reply w net rs s) =
     conversationMessages s @
     (case chat_result w net (conversationMessages s) of
        Inl err \<Rightarrow> []
      | Inr reply \<Rightarrow> [\<lparr>role = ''assistant'', content = reply\<rparr>])"
  by (simp add: chatForm_reply_def callOpenAIWithMessages_eq Let_def split: sum.splits)

lemma chatForm_submit_messages:
  assumes "routineGenerated s" "userInput s = Some v" "trim v \<noteq> []"
  shows "conversationMessages (chatForm_submit w net s) =
           follow_up_request w net (trim v) (conversationMessages s) @
           (case chat_result w net (follow_up_request w net (trim v) (conversationMessages s)) of
              Inl err \<Rightarrow> []
            | Inr reply \<Rightarrow> [\<lparr>role = ''assistant'', content = reply\<rparr>])"
proof -
  from assms(3) have v: "v \<noteq> []" by auto
  show ?thesis
    using assms v
    by (simp add: chatForm_submit_def Let_def performWebSearch_eq chatForm_reply_messages
        follow_up_request_def with_results_def)
qed

lemma with_results_nth:
  "i < length ms \<Longrightarrow> (with_results rs ms @ rest) ! i = ms ! i"
  by (simp add: with_results_def nth_append)

text \<open>
  Claim C4, as amended: after a successful routine generation the transcript starts with
  the system instruction, followed by the user message that carries the payload of the
  selected products as JSON text; a system message with the search results comes next
  exactly when the search returned results, and the assistant's reply is last. A
  follow-up appends one user entry, then one system entry with the search results exactly
  when its search returned results, then, on success, one assistant entry.
\<close>

theorem transcript_after_generate_and_follow_up:
  "(selected \<noteq> [] \<and> chat_result w net (generate_request w net selected) = Inr c \<longrightarrow>
      conversationMessages (generate_click w net selected s) =
        [systemInstruction, user_message selected] @
        (if search_list w net (generate_query (map payload_of selected)) = [] then []
         else [results_message (search_list w net (generate_query (map payload_of selected)))]) @
        [\<lparr>role = ''assistant'', content = c\<rparr>] \<and>
      conversationMessages (generate_click w net selected s) ! 0 = systemInstruction \<and>
      conversationMessages (generate_click w net selected s) ! 1 = user_message selected \<and>
      routineGenerated (generate_click w net selected s)) \<and>
   (routineGenerated s \<and> userInput s = Some v \<and> trim v \<noteq> [] \<longrightarrow>
      conversationMessages (chatForm_submit w net s) =
        conversationMessages s @ [\<lparr>role = ''user'', content = trim v\<rparr>] @
        (if search_list w net (trim v @ '' '' @ LOreal) = [] then []
         else [results_message (search_list w net (trim v @ '' '' @ LOreal))]) @
        (case chat_result w net (follow_up_request w net (trim v) (conversationMessages s)) of
           Inl err \<Rightarrow> []
         | Inr reply \<Rightarrow> [\<lparr>role = ''assistant'', content = reply\<rparr>]))"
proof -
  have g: "conversationMessages (generate_click w net selected s) =
             generate_request w net selected @ [\<lparr>role = ''assistant'', content = c\<rparr>] \<and>
           routineGenerated (generate_click w net selected s)"
    if "selected \<noteq> []" "chat_result w net (generate_request w net selected) = Inr c"
    using that by (simp add: generate_click_messages generate_click_routineGenerated)
  have r: "generate_request w net selected =
             [systemInstruction, user_message selected] @
             (if search_list w net (generate_query (map payload_of selected)) = [] then []
              else [results_message (search_list w net (generate_query (map payload_of selected)))])"
    by (simp add: generate_request_def with_results_def)
  have n: "(generate_request w net selected @ rest) ! 0 = systemInstruction"
          "(generate_request w net selected @ rest) ! 1 = user_message selected" for rest
    by (simp_all add: generate_request_def with_results_nth)
  have f: "follow_up_request w net (trim v) (conversationMessages s) =
             conversationMessages s @ [\<lparr>role = ''user'', content = trim v\<rparr>] @
             (if search_list w net (trim v @ '' '' @ LOreal) = [] then []
              else [results_message (search_list w net (trim v @ '' '' @ LOreal))])"
    by (simp add: follow_up_request_def with_results_def)
  have u: "conversationMessages (chatForm_submit w net s) =
             follow_up_request w net (trim v) (conversationMessages s) @
             (case chat_result w net (follow_up_request w net (trim v) (conversationMessages s)) of
                Inl err \<Rightarrow> []
              | Inr reply \<Rightarrow> [\<lparr>role = ''assistant'', content = reply\<rparr>])"
    if "routineGenerated s" "userInput s = Some v" "trim v \<noteq> []"
    using that by (rule chatForm_submit_messages)
  show ?thesis
  proof (intro conjI impI)
    assume a: "selected \<noteq> [] \<and> chat_result w net (generate_request w net selected) = Inr c"
    with g have m: "conversationMessages (generate_click w net selected s) =
        generate_request w net selected @ [\<lparr>role = ''assistant'', content = c\<rparr>]"
      and "routineGenerated (generate_click w net selected s)" by simp_all
    then show "routineGenerated (generate_click w net selected s)" by simp
    show "conversationMessages (generate_click w net selected s) ! 0 = systemInstruction"
      unfolding m by (rule n)
    show "conversationMessages (generate_click w net selected s) ! 1 = user_message selected"
      unfolding m by (rule n)
    show "conversationMessages (generate_click w net selected s) =
        [systemInstruction, user_message selected] @
        (if search_list w net (generate_query (map payload_of selected)) = [] then []
         else [results_message (search_list w net (generate_query (map payload_of selected)))]) @
        [\<lparr>role = ''assistant'', content = c\<rparr>]"
      unfolding m r by simp
  next
    assume "routineGenerated s \<and> userInput s = Some v \<and> trim v \<noteq> []"
    then have "conversationMessages (chatForm_submit w net s) =
             follow_up_request w net (trim v) (conversationMessages s) @
             (case chat_result w net (follow_up_request w net (trim v) (conversationMessages s)) of
                Inl err \<Rightarrow> []
              | Inr reply \<Rightarrow> [\<lparr>role = ''assistant'', content = reply\<rparr>])"
      using u by simp
    then show "conversationMessages (chatForm_submit w net s) =
        conversationMessages s @ [\<lparr>role = ''user'', content = trim v\<rparr>] @
        (if search_list w net (trim v @ '' '' @ LOreal) = [] then []
         else [results_message (search_list w net (trim v @ '' '' @ LOreal))]) @
        (case chat_result w net (follow_up_request w net (trim v) (conversationMessages s)) of
           Inl err \<Rightarrow> []
         | Inr reply \<Rightarrow> [\<lparr>role = ''assistant'', content = reply\<rparr>])"
      by (simp add: f)
  qed
qed

theorem transcript_after_generate_and_follow_up_witness:
  "[gel] \<noteq> [] \<and>
   chat_result search_window good_net (generate_request search_window good_net [gel]) =
     Inr ''Use the gel in the morning.'' \<and>
   conversationMessages (generate_click search_window good_net [gel] page) ! 0 = systemInstruction \<and>
   conversationMessages (generate_click search_window good_net [gel] page) ! 1 = user_message [gel] \<and>
   routineGenerated (generate_click search_window good_net [gel] page) \<and>
   routineGenerated asked \<and> userInput asked = Some ''how often?'' \<and> trim ''how often?'' \<noteq> [] \<and>
   conversationMessages (chatForm_submit search_window good_net asked) =
     conversationMessages asked @ [\<lparr>role = ''user'', content = trim ''how often?''\<rparr>] @
     (if search_list search_window good_net (trim ''how often?'' @ '' '' @ LOreal) = [] then []
      else [results_message (search_list search_window good_net (trim ''how often?'' @ '' '' @ LOreal))]) @
     (case chat_result search_window good_net
             (follow_up_request search_window good_net (trim ''how often?'') (conversationMessages asked)) of
        Inl err \<Rightarrow> []
      | Inr reply \<Rightarrow> [\<lparr>role = ''assistant'', content = reply\<rparr>])"
proof -
  have a: "[gel] \<noteq> []" by simp
  have b: "chat_result search_window good_net (generate_request search_window good_net [gel]) =
     Inr ''Use the gel in the morning.''"
    by (simp add: chat_result_def good_net_def read_chat_response_def)
  have c: "routineGenerated asked"
    using a b by (simp add: asked_def generate_click_routineGenerated)
  have d: "userInput asked = Some ''how often?''" by (simp add: asked_def)
  have e: "trim ''how often?'' \<noteq> []" by code_simp
  from transcript_after_generate_and_follow_up
         [where selected = "[gel]" and w = search_window and net = good_net
            and c = "''Use the gel in the morning.''" and s = page and v = "''how often?''"]
       transcript_after_generate_and_follow_up
         [where selected = "[gel]" and w = search_window and net = good_net
            and c = "''Use the gel in the morning.''" and s = asked and v = "''how often?''"]
    a b c d e
  show ?thesis by blast
qed

text \<open>The JSON text of the payload in the user message, for the gel.\<close>

lemma sample_payload:
  "stringify_payload (map payload_of [gel]) =
     ''['' @ nl @
     ''  {'' @ nl @
     ''    '' @ json_quote ''name'' @ '': '' @ json_quote ''Gel'' @ '','' @ nl @
     ''    '' @ json_quote ''category'' @ '': '' @ json_quote ''cleanser'' @ nl @
     ''  }'' @ nl @
     '']''"
  "json_quote ''Gel'' = [CHR 0x22] @ ''Gel'' @ [CHR 0x22]"
  by code_simp+

text \<open>
  Claim C4 as stated fails: with a search proxy that finds a result, a successful
  follow-up appends three entries, the second a system message.
\<close>

theorem follow_up_appends_search_results:
  "map role (conversationMessages asked) = [''system'', ''user'', ''system'', ''assistant''] \<and>
   chat_result search_window good_net
     (follow_up_request search_window good_net ''how often?'' (conversationMessages asked)) =
     Inr ''Use the gel in the morning.'' \<and>
   map role (conversationMessages (chatForm_submit search_window good_net asked)) =
     map role (conversationMessages asked) @ [''user'', ''system'', ''assistant'']"
  by code_simp

text \<open>
  Claim C5: generating with an empty selection issues no network call, appends the notice
  to the chat window, and leaves the transcript and the routine-generated flag as they
  are.
\<close>

theorem generate_without_selection:
  "calls (generate_click w net [] s) = calls s \<and>
   conversationMessages (generate_click w net [] s) = conversationMessages s \<and>
   routineGenerated (generate_click w net [] s) = routineGenerated s \<and>
   chatWindow (generate_click w net [] s) =
     map_option (\<lambda>win. win @ [ChatMsg ''assistant'' ''Please select one or more products first.''])
       (chatWindow s)"
  by (simp add: generate_click_def)

subsection \<open>The buttons during the network calls\<close>

lemma generate_try_calls:
  "calls (generate_try w net items s) =
     calls s @
     (case search_proxy w of
        None \<Rightarrow> []
      | Some proxy \<Rightarrow>
          [\<lparr>call_url = proxy, call_body = SearchQuery (generate_query items),
            generateBtn_was_disabled = generateBtn_disabled s,
            sendBtn_was_disabled = sendBtn_disabled s\<rparr>]) @
     [\<lparr>call_url = chat_proxy w,
       call_body = ChatMessages
         (with_results (search_list w net (generate_query items)) (conversationMessages s)),
       generateBtn_was_disabled = generateBtn_disabled s,
       sendBtn_was_disabled = sendBtn_disabled s\<rparr>]"
  by (simp add: generate_try_def performWebSearch_eq callOpenAIWithMessages_eq Let_def
      with_results_def calls_search_issue split: sum.splits option.splits)

lemma generate_click_calls:
  "calls (generate_click w net selected s) =
     calls s @
     (if selected = [] then []
      else (case search_proxy w of
              None \<Rightarrow> []
            | Some proxy \<Rightarrow>
                [\<lparr>call_url = proxy,
                  call_body = SearchQuery (generate_query (map payload_of selected)),
                  generateBtn_was_disabled = True,
                  sendBtn_was_disabled = sendBtn_disabled s\<rparr>]) @
           [\<lparr>call_url = chat_proxy w,
             call_body = ChatMessages (generate_request w net selected),
             generateBtn_was_disabled = True,
             sendBtn_was_disabled = sendBtn_disabled s\<rparr>])"
  by (simp add: generate_click_def Let_def generate_try_calls generate_request_def
      user_message_def split: option.splits)

lemma generate_try_generateBtn [simp]:
  "generateBtn_disabled (generate_try w net items s) = generateBtn_disabled s"
  by (simp add: generate_try_def performWebSearch_eq callOpenAIWithMessages_eq Let_def
      split: sum.splits)

lemma generate_click_guards_its_calls:
  "list_all generateBtn_was_disabled
     (drop (length (calls s)) (calls (generate_click w net selected s))) \<and>
   (selected \<noteq> [] \<longrightarrow> \<not> generateBtn_disabled (generate_click w net selected s))"
  by (simp add: generate_click_calls split: option.splits) (simp add: generate_click_def Let_def)

lemma chatForm_reply_fields [simp]:
  "sendBtn_disabled (chatForm_reply w net rs s) = sendBtn_disabled s"
  "generateBtn_disabled (chatForm_reply w net rs s) = generateBtn_disabled s"
  by (simp_all add: chatForm_reply_def callOpenAIWithMessages_eq Let_def split: sum.splits)

lemma chatForm_reply_calls:
  "calls (chatForm_reply w net rs s) =
     calls s @
     [\<lparr>call_url = chat_proxy w, call_body = ChatMessages (conversationMessages s),
       generateBtn_was_disabled = generateBtn_disabled s,
       sendBtn_was_disabled = sendBtn_disabled s\<rparr>]"
  by (simp add: chatForm_reply_def callOpenAIWithMessages_eq Let_def split: sum.splits)

lemma chatForm_submit_calls:
  assumes "routineGenerated s" "userInput s = Some v" "trim v \<noteq> []"
  shows "calls (chatForm_submit w net s) =
     calls s @
     (case search_proxy w of
        None \<Rightarrow> []
      | Some proxy \<Rightarrow>
          [\<lparr>call_url = proxy, call_body = SearchQuery (trim v @ '' '' @ LOreal),
            generateBtn_was_disabled = generateBtn_disabled s,
            sendBtn_was_disabled = sendBtn_disabled s\<rparr>]) @
     [\<lparr>call_url = chat_proxy w,
       call_body = ChatMessages (follow_up_request w net (trim v) (conversationMessages s)),
       generateBtn_was_disabled = generateBtn_disabled s,
       sendBtn_was_disabled = map_option (\<lambda>_. True) (sendBtn_disabled s)\<rparr>]"
proof -
  from assms(3) have v: "v \<noteq> []" by auto
  show ?thesis
    using assms v
    by (simp add: chatForm_submit_def Let_def performWebSearch_eq chatForm_reply_calls
        follow_up_request_def with_results_def calls_search_issue split: option.splits)
qed

lemma chatForm_submit_sendBtn:
  assumes "routineGenerated s" "userInput s = Some v" "trim v \<noteq> []"
  shows "sendBtn_disabled (chatForm_submit w net s) = map_option (\<lambda>_. False) (sendBtn_disabled s)"
proof -
  from assms(3) have v: "v \<noteq> []" by auto
  show ?thesis
    using assms v
    by (simp add: chatForm_submit_def Let_def performWebSearch_eq option.map_comp comp_def)
qed

text \<open>
  Claim C8: both entry points disable their triggering control for the duration of the
  network call and enable it afterwards. The generate handler does (above). The follow-up
  handler awaits the search proxy before it disables the send button: on the sample page,
  with a search proxy configured, its first call is issued while the button is enabled;
  only the call to the chat service is issued with the button disabled.
\<close>

theorem follow_up_searches_with_send_button_enabled:
  "sendBtn_disabled asked = Some False \<and>
   search_proxy search_window = Some ''https://search.example/search'' \<and>
   map call_url (drop (length (calls asked)) (calls (chatForm_submit search_window good_net asked))) =
     [''https://search.example/search'', default_proxyUrl] \<and>
   map sendBtn_was_disabled
     (drop (length (calls asked)) (calls (chatForm_submit search_window good_net asked))) =
     [Some False, Some True] \<and>
   map generateBtn_was_disabled (calls asked) = [True, True] \<and>
   sendBtn_disabled (chatForm_submit search_window good_net asked) = Some False"
  by code_simp

section \<open>Properties of the proxy workers\<close>

subsection \<open>The minimal worker without a search key\<close>

lemma minimal_worker_loads: "minimal_worker = Exports fetch_minimal"
  by (simp add: minimal_worker_def minimal_worker_classes_def load_module_def)

lemma fetch_minimal_no_key_calls:
  "no_search_key e \<Longrightarrow> snd (fetch_minimal prov e r) = []"
  by (simp add: fetch_minimal_def no_search_key_def Let_def split: sum.splits)

lemma tmpl_js_or_empty: "tmpl (js_or (js_or a (js_or b (Some []))) (Some [])) = tmpl (js_or a (js_or b (Some [])))"
  by (simp add: js_or_def tmpl_def truthy_def split: option.splits)

lemma fetch_minimal_search_no_key:
  assumes "http_method r = ''POST''" "is_json r" "json r = Inr b" "no_search_key e"
  shows "fst (fetch_minimal prov e r) =
           (if query_of b = []
            then \<lparr>status = 200, headers = CORS_HEADERS_minimal, body = ResultsBody []\<rparr>
            else \<lparr>status = 400, headers = CORS_HEADERS_minimal,
                  body = ErrorBody
                    ''No search API key configured (SERPAPI_KEY or GOOGLE_API_KEY+GOOGLE_CX).''\<rparr>)"
proof -
  from assms(4) have k: "\<not> truthy (SERPAPI_KEY e)"
    "\<not> (truthy (GOOGLE_API_KEY e) \<and> truthy (GOOGLE_CX e))"
    by (simp_all add: no_search_key_def)
  from assms(1,2,3) have q: "minimal_query r = Inr (js_or (body_q b) (js_or (body_query b) (Some [])))"
    by (simp add: minimal_query_def is_json_def)
  from assms(1) have m: "http_method r \<noteq> ''OPTIONS''" by simp
  show ?thesis
    using k m
    by (cases "truthy (GOOGLE_API_KEY e)")
      (simp_all add: fetch_minimal_def q Let_def query_of_def tmpl_js_or_empty)
qed

text \<open>
  Claim C6, as amended, for the minimal search worker: when neither \<^verbatim>\<open>SERPAPI_KEY\<close>
  nor both \<^verbatim>\<open>GOOGLE_API_KEY\<close> and \<^verbatim>\<open>GOOGLE_CX\<close> are configured, the worker makes no
  call to any provider, whatever the request; a POST of a JSON body whose query is not
  blank is answered with status 400 and a JSON error body, and one whose query is blank
  or missing with status 200 and an empty list of results.
\<close>

theorem search_without_backend_key:
  "(no_search_key e \<longrightarrow> snd (fetch_minimal prov e r) = []) \<and>
   (http_method r = ''POST'' \<and> is_json r \<and> json r = Inr b \<and> no_search_key e \<longrightarrow>
      fst (fetch_minimal prov e r) =
        (if query_of b = []
         then \<lparr>status = 200, headers = CORS_HEADERS_minimal, body = ResultsBody []\<rparr>
         else \<lparr>status = 400, headers = CORS_HEADERS_minimal,
               body = ErrorBody
                 ''No search API key configured (SERPAPI_KEY or GOOGLE_API_KEY+GOOGLE_CX).''\<rparr>))"
  using fetch_minimal_no_key_calls [of e prov r] fetch_minimal_search_no_key [of r b e prov]
  by blast

theorem search_without_backend_key_witness:
  "no_search_key no_keys \<and> http_method search_post = ''POST'' \<and> is_json search_post \<and>
   json search_post = Inr search_body \<and> query_of search_body = ''gel'' \<and>
   snd (fetch_minimal quiet no_keys search_post) = [] \<and>
   fst (fetch_minimal quiet no_keys search_post) =
     \<lparr>status = 400, headers = CORS_HEADERS_minimal,
      body = ErrorBody ''No search API key configured (SERPAPI_KEY or GOOGLE_API_KEY+GOOGLE_CX).''\<rparr>"
proof -
  have b: "no_search_key no_keys" by code_simp
  have c: "http_method search_post = ''POST''" by (simp add: search_post_def)
  have f: "is_json search_post" by code_simp
  have g: "json search_post = Inr search_body" by (simp add: search_post_def search_body_def)
  have h: "query_of search_body = ''gel''" by code_simp
  from search_without_backend_key [of no_keys quiet search_post search_body] b c f g h
  show ?thesis by simp
qed

text \<open>
  Claim C6 as stated fails: without any search key, the minimal worker answers the POST
  of a JSON body whose query is two spaces with status 200 and an empty list of results,
  not with status 400 and an error.
\<close>

theorem blank_query_is_answered_with_200:
  "no_search_key no_keys \<and>
   http_method blank_post = ''POST'' \<and> pathname blank_post = ''/search'' \<and>
   content_type blank_post = Some ''application/json'' \<and>
   json blank_post = Inr blank_body \<and> body_q blank_body = Some ''  '' \<and>
   status (fst (fetch_minimal quiet no_keys blank_post)) = 200 \<and>
   body (fst (fetch_minimal quiet no_keys blank_post)) = ResultsBody [] \<and>
   snd (fetch_minimal quiet no_keys blank_post) = []"
  by code_simp

subsection \<open>The combined worker\<close>

lemma url_class_range: "\<not> list_all range_in_order (combined_worker_classes ! 1)"
  by code_simp

text \<open>
  Claim C7: for every POST to the chat endpoint the worker derives the search query,
  puts the formatted results in front of the messages and forwards the transcript to the
  language model as one prompt. The code breaks this before any request arrives: the
  literal of line 108 has the range \<^verbatim>\<open>%-#\<close>, whose first character (code 37) is
  greater than its last (code 35), so the module of the combined worker fails to load.
  Whatever handler the module defines, it is not exported: the worker answers no request
  and makes no call to the language model.
\<close>

theorem combined_worker_fails_to_load:
  "load_module combined_worker_classes h = Failed_to_load \<and>
   respond (load_module combined_worker_classes h) prov e r = None"
  by (simp add: load_module_def respond_def combined_worker_classes_def)

lemma combined_worker_answers_nothing: "respond combined_worker prov e r = None"
  by (simp add: combined_worker_def load_module_def respond_def combined_worker_classes_def)

lemma combined_worker_sample:
  "respond combined_worker seven with_key chat_post = None \<and>
   respond combined_worker quiet no_keys search_post = None"
  by (simp add: combined_worker_answers_nothing)

subsection \<open>The chat handler as it is written\<close>

text \<open>
  What the handler of the combined worker would do with a chat request, were the range of
  line 108 in order: the code attempts what the specification says.
\<close>

lemma find_rev:
  "find P (rev xs) = (if filter P xs = [] then None else Some (last (filter P xs)))"
  by (induction xs rule: rev_induct) auto

lemma messageString_of_eq:
  "messageString_of b =
     (case body_message b of
        None \<Rightarrow> last_user_turn b
      | Some m \<Rightarrow> if m \<noteq> [] then trim m else last_user_turn b)"
  by (auto simp: messageString_of_def last_user_turn_def find_rev tmpl_def truthy_def
      split: option.splits)

lemma upper_case_roles:
  "map toUpperCase_char ''system'' = ''SYSTEM''"
  "map toUpperCase_char ''user'' = ''USER''"
  "map toUpperCase_char ''assistant'' = ''ASSISTANT''"
  by code_simp+

lemma role_line_of:
  "role m = ''system'' \<Longrightarrow> role_line m = ''SYSTEM: '' @ content m"
  "role m = ''user'' \<Longrightarrow> role_line m = ''USER: '' @ content m"
  "role m = ''assistant'' \<Longrightarrow> role_line m = ''ASSISTANT: '' @ content m"
  by (simp only: role_line_def upper_case_roles, simp)+

lemma input_part_known:
  assumes "known_role m"
  shows "input_part m = [role_line m]"
proof -
  from assms consider "role m = ''system''" | "role m = ''user''" | "role m = ''assistant''"
    by (auto simp: known_role_def)
  then show ?thesis
    by cases (simp_all add: role_line_of input_part_def)
qed

lemma input_part_unknown: "\<not> known_role m \<Longrightarrow> input_part m = []"
  by (simp add: known_role_def input_part_def)

lemma concat_input_part:
  "concat (map input_part ms) = map role_line (filter known_role ms)"
  by (induction ms) (simp_all add: input_part_known input_part_unknown)

lemma responses_input_eq:
  "responses_input ms = join (nl @ nl) (map role_line (filter known_role ms))"
  by (simp add: responses_input_def concat_input_part)

lemma filter_known_all: "list_all known_role ms \<Longrightarrow> filter known_role ms = ms"
  by (induction ms) simp_all

lemma show_nat_nonempty [simp]: "show_nat n \<noteq> []"
  by (subst show_nat.simps) simp

lemma join_nonempty: "x \<noteq> [] \<Longrightarrow> join sep (x # xs) \<noteq> []"
  by (cases xs) simp_all

lemma worker_formatted_nonempty: "rs \<noteq> [] \<Longrightarrow> worker_formatted rs \<noteq> []"
proof (cases rs)
  case Nil
  moreover assume "rs \<noteq> []"
  ultimately show ?thesis by simp
next
  case (Cons x xs)
  have "worker_format_result (0, x) \<noteq> []"
    by (simp add: worker_format_result_def)
  then show ?thesis
    using Cons by (simp add: worker_formatted_def enumerate_eq_zip upt_conv_Cons join_nonempty
        del: upt_Suc)
qed

lemma chat_search_calls:
  "truthy (OPENAI_API_KEY e) \<Longrightarrow>
   snd (snd (chat_search prov e q ms)) =
     (if q = [] then [] else [PostResponses (tmpl (OPENAI_API_KEY e)) (search_prompt q 6)])"
  by (simp add: chat_search_def doOpenAISearch_def Let_def split: search_outcome.splits)

lemma chat_search_found:
  assumes "truthy (OPENAI_API_KEY e)" "q \<noteq> []"
    "openai_search prov (search_prompt q 6) = SearchParsed rs" "rs \<noteq> []"
  shows "fst (snd (chat_search prov e q ms)) =
           \<lparr>role = ''system'',
            content = ''Web search results (top):'' @ nl @ nl @
                      join (nl @ nl) (map worker_format_result (enumerate 0 (take 6 rs)))\<rparr> # ms"
proof -
  from assms(4) have "take 6 rs \<noteq> []" by (cases rs) simp_all
  then have "worker_formatted (take 6 rs) \<noteq> []" by (rule worker_formatted_nonempty)
  with assms show ?thesis
    by (simp add: chat_search_def doOpenAISearch_def Let_def) (simp add: worker_formatted_def)
qed

lemma chat_search_forwards:
  assumes "truthy (OPENAI_API_KEY e)"
  shows "fst (snd (chat_search prov e q ms)) =
           (if q = [] then ms
            else (case openai_search prov (search_prompt q 6) of
                    SearchFailed m \<Rightarrow>
                      \<lparr>role = ''system'', content = ''Web search failed: '' @ m\<rparr> # ms
                  | SearchParsed rs \<Rightarrow>
                      if rs = [] then ms
                      else \<lparr>role = ''system'',
                            content = ''Web search results (top):'' @ nl @ nl @
                                      join (nl @ nl)
                                        (map worker_format_result (enumerate 0 (take 6 rs)))\<rparr> # ms))"
proof (cases "q = []")
  case True
  then show ?thesis by (simp add: chat_search_def)
next
  case False
  show ?thesis
  proof (cases "openai_search prov (search_prompt q 6)")
    case (SearchFailed m)
    with False assms show ?thesis
      by (simp add: chat_search_def doOpenAISearch_def Let_def)
  next
    case (SearchParsed rs)
    show ?thesis
    proof (cases "rs = []")
      case True
      with False assms SearchParsed show ?thesis
        by (simp add: chat_search_def doOpenAISearch_def Let_def worker_formatted_def)
    next
      case nonempty: False
      from chat_search_found [OF assms False SearchParsed nonempty, of ms]
      show ?thesis using False SearchParsed nonempty by simp
    qed
  qed
qed

lemma chat_branch_calls:
  assumes "is_json r" "json r = Inr b" "truthy (OPENAI_API_KEY e)"
  shows "snd (chat_branch prov e r) =
           snd (snd (chat_search prov e (messageString_of b) (transcript_of b))) @
           [PostResponses (tmpl (OPENAI_API_KEY e))
              (responses_input (forwarded_transcript prov e b))]"
  using assms
  by (simp add: chat_branch_def is_json_def Let_def transcript_of_def forwarded_transcript_def
      callOpenAIResponses_def split: prod.splits sum.splits reply_outcome.splits)

text \<open>
  For a POST of a JSON body to the chat endpoint, with the key configured, the handler as
  written takes as search query the trimmed message when the body has a non-empty message
  string, else the content of the last user turn of the messages; it forwards the messages
  of the request, with one system message in front of them when a search was made and
  either failed or found results (at most six of them, formatted); and its last call
  sends the forwarded transcript to the language model as one input, the lines
  \<^verbatim>\<open>ROLE: content\<close> of its messages in their order, joined by blank lines (a message whose
  role is none of the three has no line).
\<close>

lemma chat_handler_as_written:
  assumes "http_method r = ''POST''" and "suffix ''/chat'' (strip_slash (pathname r))"
    and "is_json r" and "json r = Inr b" and "truthy (OPENAI_API_KEY e)"
  shows "messageString_of b =
           (case body_message b of
              None \<Rightarrow> last_user_turn b
            | Some m \<Rightarrow> if m \<noteq> [] then trim m else last_user_turn b)"
    and "snd (fetch_combined prov e r) =
           (if messageString_of b = [] then []
            else [PostResponses (tmpl (OPENAI_API_KEY e)) (search_prompt (messageString_of b) 6)]) @
           [PostResponses (tmpl (OPENAI_API_KEY e))
              (responses_input (forwarded_transcript prov e b))]"
    and "forwarded_transcript prov e b =
           (if messageString_of b = [] then transcript_of b
            else (case openai_search prov (search_prompt (messageString_of b) 6) of
                    SearchFailed m \<Rightarrow>
                      \<lparr>role = ''system'', content = ''Web search failed: '' @ m\<rparr> # transcript_of b
                  | SearchParsed rs \<Rightarrow>
                      if rs = [] then transcript_of b
                      else \<lparr>role = ''system'',
                            content = ''Web search results (top):'' @ nl @ nl @
                                      join (nl @ nl)
                                        (map worker_format_result (enumerate 0 (take 6 rs)))\<rparr> #
                           transcript_of b))"
    and "responses_input (forwarded_transcript prov e b) =
           join (nl @ nl) (map role_line (filter known_role (forwarded_transcript prov e b)))"
proof -
  from assms(1) have o: "http_method r \<noteq> ''OPTIONS''" by simp
  have c: "snd (fetch_combined prov e r) = snd (chat_branch prov e r)"
    using assms(1,2) o by (simp add: fetch_combined_def)
  show "snd (fetch_combined prov e r) =
           (if messageString_of b = [] then []
            else [PostResponses (tmpl (OPENAI_API_KEY e)) (search_prompt (messageString_of b) 6)]) @
           [PostResponses (tmpl (OPENAI_API_KEY e))
              (responses_input (forwarded_transcript prov e b))]"
    unfolding c chat_branch_calls [OF assms(3,4,5)] chat_search_calls [OF assms(5)] ..
  show "messageString_of b =
           (case body_message b of
              None \<Rightarrow> last_user_turn b
            | Some m \<Rightarrow> if m \<noteq> [] then trim m else last_user_turn b)"
    by (rule messageString_of_eq)
  show "forwarded_transcript prov e b =
           (if messageString_of b = [] then transcript_of b
            else (case openai_search prov (search_prompt (messageString_of b) 6) of
                    SearchFailed m \<Rightarrow>
                      \<lparr>role = ''system'', content = ''Web search failed: '' @ m\<rparr> # transcript_of b
                  | SearchParsed rs \<Rightarrow>
                      if rs = [] then transcript_of b
                      else \<lparr>role = ''system'',
                            content = ''Web search results (top):'' @ nl @ nl @
                                      join (nl @ nl)
                                        (map worker_format_result (enumerate 0 (take 6 rs)))\<rparr> #
                           transcript_of b))"
    unfolding forwarded_transcript_def by (rule chat_search_forwards [OF assms(5)])
  show "responses_input (forwarded_transcript prov e b) =
           join (nl @ nl) (map role_line (filter known_role (forwarded_transcript prov e b)))"
    by (rule responses_input_eq)
qed

text \<open>The input the handler would send for the sample request.\<close>

lemma sample_prompt:
  "responses_input (forwarded_transcript seven with_key chat_body) =
     ''SYSTEM: Web search results (top):'' @ nl @ nl @
     join (nl @ nl)
       (map (\<lambda>i. show_nat i @ ''. Gel review'' @ nl @ ''undefined'' @ nl @ ''https://example.com/gel'')
          [1, 2, 3, 4, 5, 6]) @
     nl @ nl @ ''USER: first question'' @ nl @ nl @ ''ASSISTANT: an answer'' @ nl @ nl @
     ''USER: about the gel''"
  by code_simp

end
